theory Spec2Isabelle
  imports Main "HOL-Library.AList"
begin

section \<open>Python string primitives used by the executor\<close>

text \<open>
  Strings are lists of characters with code points below 256.  \<open>py_isspace\<close> is
  \<^verbatim>\<open>str.isspace\<close> on that range; \<^verbatim>\<open>str.strip\<close>, \<^verbatim>\<open>str.rstrip\<close> and
  \<^verbatim>\<open>str.split\<close> without arguments cut at these characters.
\<close>

definition py_isspace :: "char \<Rightarrow> bool" where
  "py_isspace c =
     (let n = (of_char c :: nat)
      in (9 \<le> n \<and> n \<le> 13) \<or> (28 \<le> n \<and> n \<le> 32) \<or> n = 133 \<or> n = 160)"

definition py_lstrip :: "string \<Rightarrow> string" where
  "py_lstrip s = dropWhile py_isspace s"

definition py_rstrip :: "string \<Rightarrow> string" where
  "py_rstrip s = rev (dropWhile py_isspace (rev s))"

definition py_strip :: "string \<Rightarrow> string" where
  "py_strip s = py_rstrip (py_lstrip s)"

fun py_split_from :: "string \<Rightarrow> string \<Rightarrow> string list" where
  "py_split_from cur [] = (if cur = [] then [] else [cur])"
| "py_split_from cur (c # cs) =
     (if py_isspace c
      then (if cur = [] then py_split_from [] cs else cur # py_split_from [] cs)
      else py_split_from (cur @ [c]) cs)"

definition py_split :: "string \<Rightarrow> string list" where
  "py_split s = py_split_from [] s"

definition startswith :: "string \<Rightarrow> string \<Rightarrow> bool" where
  "startswith s p = (take (length p) s = p)"

definition endswith :: "string \<Rightarrow> string \<Rightarrow> bool" where
  "endswith s p = (length p \<le> length s \<and> drop (length s - length p) s = p)"


fun py_join :: "string \<Rightarrow> string list \<Rightarrow> string" where
  "py_join sep [] = []"
| "py_join sep [x] = x"
| "py_join sep (x # y # ys) = x @ sep @ py_join sep (y # ys)"

text \<open>
  \<^verbatim>\<open>int(s)\<close> in base 10: surrounding whitespace is dropped, one sign is allowed,
  then digits, with single underscores between digits.  \<open>None\<close> is \<^verbatim>\<open>ValueError\<close>.
  The interpreter's limit on the number of digits of an integer string is not modelled.
\<close>

definition is_digit :: "char \<Rightarrow> bool" where
  "is_digit c = (48 \<le> (of_char c :: nat) \<and> (of_char c :: nat) \<le> 57)"

definition digit_val :: "char \<Rightarrow> int" where
  "digit_val c = int (of_char c) - 48"

fun py_int_digits :: "int \<Rightarrow> bool \<Rightarrow> string \<Rightarrow> int option" where
  "py_int_digits acc prev_digit [] = (if prev_digit then Some acc else None)"
| "py_int_digits acc prev_digit (c # cs) =
     (if is_digit c then py_int_digits (10 * acc + digit_val c) True cs
      else if c = CHR ''_'' \<and> prev_digit then py_int_digits acc False cs
      else None)"

definition py_int :: "string \<Rightarrow> int option" where
  "py_int s =
     (case py_strip s of
        [] \<Rightarrow> None
      | c # cs \<Rightarrow>
          if c = CHR ''+'' then py_int_digits 0 False cs
          else if c = CHR ''-'' then map_option uminus (py_int_digits 0 False cs)
          else py_int_digits 0 False (c # cs))"

text \<open>\<^verbatim>\<open>str(n)\<close> for an integer, as the f-strings of the source print it.\<close>

definition digit_char :: "nat \<Rightarrow> char" where
  "digit_char d = ''0123456789'' ! d"

fun str_nat :: "nat \<Rightarrow> string" where
  "str_nat n = (if n < 10 then [digit_char n] else str_nat (n div 10) @ [digit_char (n mod 10)])"

declare str_nat.simps [simp del]

definition str_int :: "int \<Rightarrow> string" where
  "str_int i = (if i < 0 then CHR ''-'' # str_nat (nat (- i)) else str_nat (nat i))"

section \<open>Executor state\<close>

datatype job_status = Running | Stopped | Done | Failed

text \<open>
  One entry of \<^verbatim>\<open>self.jobs\<close>.  \<open>job_process\<close> says that the \<^verbatim>\<open>"process"\<close> key holds a
  handle; the two timestamps are not modelled.
\<close>

record job =
  job_id :: int
  job_pid :: int
  job_pgid :: "int option"
  job_process :: bool
  job_command :: string
  job_status :: job_status
  job_exit_code :: "int option"

datatype signal = SIGINT | SIGKILL | SIGTERM | SIGCONT | SIGTSTP

datatype delivery = Killpg int signal | Kill int signal

datatype terminal_owner = OwnedByShell | TransferredTo int

datatype exn = OSError string | OtherError string | KeyboardInterrupt

text \<open>
  The calls to the UI and context collaborators that the dispatch core makes, and the
  handler a line is dispatched to when that handler lies outside the core.
  \<^verbatim>\<open>console.print\<close> output is presentation and is not recorded.
\<close>

datatype decision =
    ShowHelp | ConfigReload | CleanupMemory | EnvironmentInfo | ScriptCommand | ScriptLine
  | AliasList | FilesBuiltin | JobsList | ExitShell | ClearScreen | SourceFile
  | Deactivate | Activate | StreamingInteractive | PassthroughInteractive | RegularCapture

datatype ui_event =
    DisplayError string string
  | DisplayInterrupt
  | DirectoryChange string string
  | ShellContext string string
  | UpdateCompletionCache
  | Dispatched decision string

record executor =
  cwd :: string
  previous_directory :: string
  aliases :: "(string \<times> string) list"
  alias_file :: "string option"
  environ :: "(string \<times> string) list"
  available_commands_cache :: "string list option"
  script_active :: bool
  jobs :: "(int \<times> job) list"
  task_queue :: "int list"
  next_job_id :: int
  foreground_job :: "int option"
  saved_terminal :: bool
  terminal :: terminal_owner
  monitors :: "int list"
  os_log :: "delivery list"
  ui :: "ui_event list"

text \<open>
  What the operating system answers to the calls of one operation.  Every field is an
  arbitrary parameter of the theorems below.
\<close>

datatype wait_result = Exited int | WaitRaised string | WaitInterrupted

datatype poll_result = PollRunning | PollExit int | PollRaised

record os_model =
  os_posix :: bool
  os_getcwd :: "string \<Rightarrow> exn + string"
  os_chdir :: "string \<Rightarrow> string \<Rightarrow> exn + string"
  os_expanduser :: "string \<Rightarrow> string"
  os_isdir :: "string \<Rightarrow> bool"
  os_isfile_executable :: "string \<Rightarrow> bool"
  os_abspath :: "string \<Rightarrow> string \<Rightarrow> string"
  os_killpg :: "int \<Rightarrow> signal \<Rightarrow> bool"
  os_kill :: "int \<Rightarrow> signal \<Rightarrow> bool"
  os_tcgetattr :: bool
  os_tcsetpgrp :: "int \<Rightarrow> bool"
  os_tcgetpgrp :: bool
  os_tcsetpgrp_shell :: bool
  os_tcsetattr :: bool
  os_popen :: "string \<Rightarrow> string + int"
  os_getpgid :: "int \<Rightarrow> int option"
  os_wait :: "int \<Rightarrow> wait_result"
  os_poll :: "int \<Rightarrow> int option"
  os_write_alias_file :: bool
  os_arithmetic :: "string \<Rightarrow> string option"

definition display_error :: "string \<Rightarrow> string \<Rightarrow> executor \<Rightarrow> executor" where
  "display_error command msg st = st\<lparr>ui := ui st @ [DisplayError command msg]\<rparr>"

definition add_shell_context :: "string \<Rightarrow> string \<Rightarrow> executor \<Rightarrow> executor" where
  "add_shell_context command msg st = st\<lparr>ui := ui st @ [ShellContext command msg]\<rparr>"

definition dispatched :: "decision \<Rightarrow> string \<Rightarrow> executor \<Rightarrow> executor" where
  "dispatched d command st = st\<lparr>ui := ui st @ [Dispatched d command]\<rparr>"

section \<open>Job control\<close>

definition set_job :: "int \<Rightarrow> (job \<Rightarrow> job) \<Rightarrow> executor \<Rightarrow> executor" where
  "set_job jid f st = st\<lparr>jobs := AList.map_entry jid f (jobs st)\<rparr>"

definition send_signal_to_job :: "os_model \<Rightarrow> executor \<Rightarrow> int \<Rightarrow> signal \<Rightarrow> bool \<times> executor" where
  "send_signal_to_job os st jid sig =
     (case map_of (jobs st) jid of
        None \<Rightarrow> (False, st)
      | Some job_info \<Rightarrow>
          (case job_pgid job_info of
             None \<Rightarrow> (False, st)
           | Some pgid \<Rightarrow>
               if pgid = 0 \<or> job_pid job_info = 0 then (False, st)
               else if os_killpg os pgid sig
               then (True, st\<lparr>os_log := os_log st @ [Killpg pgid sig]\<rparr>)
               else if os_kill os (job_pid job_info) sig
               then (True, st\<lparr>os_log := os_log st @ [Killpg pgid sig, Kill (job_pid job_info) sig]\<rparr>)
               else (False, st\<lparr>os_log := os_log st @ [Killpg pgid sig, Kill (job_pid job_info) sig]\<rparr>)))"

definition set_foreground_process_group :: "os_model \<Rightarrow> executor \<Rightarrow> int \<Rightarrow> bool \<times> executor" where
  "set_foreground_process_group os st pgid =
     (if \<not> os_posix os then (False, st)
      else if \<not> os_tcgetattr os then (False, st)
      else if \<not> os_tcsetpgrp os pgid then (False, st)
      else
        (let st1 = st\<lparr>terminal := TransferredTo pgid\<rparr>
         in if saved_terminal st1 then (True, st1)
            else if os_tcgetpgrp os then (True, st1\<lparr>saved_terminal := True\<rparr>)
            else (False, st1)))"

definition restore_terminal_control :: "os_model \<Rightarrow> executor \<Rightarrow> bool \<times> executor" where
  "restore_terminal_control os st =
     (if \<not> os_posix os \<or> \<not> saved_terminal st then (False, st)
      else if \<not> os_tcsetpgrp_shell os then (False, st)
      else
        (let st1 = st\<lparr>terminal := OwnedByShell\<rparr>
         in if os_tcsetattr os then (True, st1) else (False, st1)))"

definition parse_job_spec :: "executor \<Rightarrow> string \<Rightarrow> int option" where
  "parse_job_spec st spec0 =
     (let spec = py_strip spec0
      in if spec = ''+'' \<or> spec = ''%+''
         then (case task_queue st of [] \<Rightarrow> None | j # _ \<Rightarrow> Some j)
         else if spec = ''-'' \<or> spec = ''%-''
         then (case task_queue st of _ # k # _ \<Rightarrow> Some k | _ \<Rightarrow> None)
         else
           (let spec1 = (if startswith spec ''%'' then drop 1 spec else spec)
            in if spec1 = [] then None
               else
                 (case py_int spec1 of
                    None \<Rightarrow> None
                  | Some n \<Rightarrow> if map_of (jobs st) n \<noteq> None then Some n else None)))"

definition suspend_foreground_job :: "os_model \<Rightarrow> executor \<Rightarrow> bool \<times> executor" where
  "suspend_foreground_job os st =
     (case foreground_job st of
        None \<Rightarrow> (False, st)
      | Some jid \<Rightarrow>
          if jid = 0 then (False, st)
          else
            (case map_of (jobs st) jid of
               None \<Rightarrow> (False, st\<lparr>foreground_job := None\<rparr>)
             | Some job_info \<Rightarrow>
                 if job_status job_info \<noteq> Running then (False, st)
                 else
                   (case send_signal_to_job os st jid SIGTSTP of
                      (True, st1) \<Rightarrow>
                        (let st2 = set_job jid (\<lambda>j. j\<lparr>job_status := Stopped\<rparr>) st1;
                             st3 = (if os_posix os then snd (restore_terminal_control os st2) else st2)
                         in (True, st3\<lparr>foreground_job := None\<rparr>))
                    | (False, st1) \<Rightarrow> (False, st1))))"

definition interrupt_foreground_job :: "os_model \<Rightarrow> executor \<Rightarrow> bool \<times> executor" where
  "interrupt_foreground_job os st =
     (case foreground_job st of
        None \<Rightarrow> (False, st)
      | Some jid \<Rightarrow>
          if jid = 0 then (False, st)
          else
            (case map_of (jobs st) jid of
               None \<Rightarrow> (False, st\<lparr>foreground_job := None\<rparr>)
             | Some job_info \<Rightarrow>
                 if job_status job_info \<noteq> Running then (False, st)
                 else
                   (case send_signal_to_job os st jid SIGINT of
                      (True, st1) \<Rightarrow>
                        (True, if os_posix os then snd (restore_terminal_control os st1) else st1)
                    | (False, st1) \<Rightarrow> (False, st1))))"

text \<open>
  \<^verbatim>\<open>_bring_job_to_foreground\<close> blocks in \<^verbatim>\<open>process.wait()\<close>.  \<open>fg_begin\<close> is the method up
  to that call; \<open>FgWaiting\<close> carries the state in which the executor waits.  \<open>fg_end\<close> is
  the rest of the method, given how the wait ended: a \<^verbatim>\<open>KeyboardInterrupt\<close> is not an
  \<^verbatim>\<open>Exception\<close> and leaves the method.
\<close>

datatype fg_stage = FgReturned executor | FgWaiting executor

definition pgid_usable :: "os_model \<Rightarrow> job \<Rightarrow> bool" where
  "pgid_usable os job_info =
     (case job_pgid job_info of None \<Rightarrow> False | Some pgid \<Rightarrow> pgid \<noteq> 0 \<and> os_posix os)"

definition fg_begin :: "os_model \<Rightarrow> executor \<Rightarrow> int \<Rightarrow> fg_stage" where
  "fg_begin os st jid =
     (case map_of (jobs st) jid of
        None \<Rightarrow> FgReturned (display_error ''fg'' (''No such job: '' @ str_int jid) st)
      | Some job_info \<Rightarrow>
          (let status = job_status job_info
           in if status = Done \<or> status = Failed
              then FgReturned
                     (display_error ''fg'' (''Job '' @ str_int jid @ '' has already completed'') st)
              else
                (let st1 = st\<lparr>foreground_job := Some jid\<rparr>
                 in if \<not> job_process job_info
                    then FgReturned
                           (display_error ''fg'' (''Job '' @ str_int jid @ '' has no process object'') st1)
                    else
                      (let st2 =
                             (if status = Stopped
                              then (case send_signal_to_job os st1 jid SIGCONT of
                                      (True, s) \<Rightarrow> set_job jid (\<lambda>j. j\<lparr>job_status := Running\<rparr>) s
                                    | (False, s) \<Rightarrow> s)
                              else st1);
                           st3 =
                             (if pgid_usable os job_info
                              then snd (set_foreground_process_group os st2 (the (job_pgid job_info)))
                              else st2)
                       in FgWaiting st3))))"

definition fg_end :: "os_model \<Rightarrow> executor \<Rightarrow> int \<Rightarrow> bool \<Rightarrow> wait_result \<Rightarrow> exn option \<times> executor" where
  "fg_end os st jid use_pgid w =
     (case w of
        Exited exit_code \<Rightarrow>
          (let st1 = (if use_pgid then snd (restore_terminal_control os st) else st);
               st2 = st1\<lparr>foreground_job := None\<rparr>
           in (None, set_job jid (\<lambda>j. j\<lparr>job_status := Done, job_exit_code := Some exit_code\<rparr>) st2))
      | WaitRaised msg \<Rightarrow>
          (let st1 = (if os_posix os then snd (restore_terminal_control os st) else st)
           in (None, display_error ''fg'' (''Error: '' @ msg) (st1\<lparr>foreground_job := None\<rparr>)))
      | WaitInterrupted \<Rightarrow> (Some KeyboardInterrupt, st))"

definition bring_job_to_foreground :: "os_model \<Rightarrow> executor \<Rightarrow> int \<Rightarrow> exn option \<times> executor" where
  "bring_job_to_foreground os st jid =
     (case fg_begin os st jid of
        FgReturned st' \<Rightarrow> (None, st')
      | FgWaiting st' \<Rightarrow>
          (case map_of (jobs st) jid of
             None \<Rightarrow> (None, st')
           | Some job_info \<Rightarrow>
               fg_end os st' jid (pgid_usable os job_info) (os_wait os (job_pid job_info))))"

definition resume_background_job :: "os_model \<Rightarrow> executor \<Rightarrow> int \<Rightarrow> executor" where
  "resume_background_job os st jid =
     (case map_of (jobs st) jid of
        None \<Rightarrow> display_error ''bg'' (''No such job: '' @ str_int jid) st
      | Some job_info \<Rightarrow>
          (let status = job_status job_info
           in if status = Done \<or> status = Failed
              then display_error ''bg'' (''Job '' @ str_int jid @ '' has already completed'') st
              else if status \<noteq> Stopped then st
              else
                (case send_signal_to_job os st jid SIGCONT of
                   (True, s) \<Rightarrow> set_job jid (\<lambda>j. j\<lparr>job_status := Running\<rparr>) s
                 | (False, s) \<Rightarrow> display_error ''bg'' (''Failed to resume job '' @ str_int jid) s)))"

definition handle_passthrough_interactive_command :: "executor \<Rightarrow> string \<Rightarrow> executor" where
  "handle_passthrough_interactive_command st command = dispatched PassthroughInteractive command st"

definition execute_background_command :: "os_model \<Rightarrow> executor \<Rightarrow> string \<Rightarrow> executor" where
  "execute_background_command os st command =
     (let stripped = py_rstrip command
      in if stripped = [] then display_error command ''Empty command'' st
         else if last stripped \<noteq> CHR ''&''
         then handle_passthrough_interactive_command st command
         else if 1 < length stripped \<and> stripped ! (length stripped - 2) = CHR ''&''
         then handle_passthrough_interactive_command st command
         else
           (let cmd_to_run = py_rstrip (butlast stripped)
            in if cmd_to_run = []
               then display_error command ''Empty command after removing &'' st
               else
                 (let jid = next_job_id st;
                      st1 = st\<lparr>next_job_id := jid + 1\<rparr>
                  in case os_popen os cmd_to_run of
                       Inl err \<Rightarrow>
                         (let error_msg = ''Failed to start background job: '' @ err
                          in add_shell_context command error_msg (display_error command error_msg st1))
                     | Inr pid \<Rightarrow>
                         (let pgid = (if os_posix os then os_getpgid os pid else None);
                              entry = \<lparr>job_id = jid, job_pid = pid, job_pgid = pgid,
                                       job_process = True, job_command = cmd_to_run,
                                       job_status = Running, job_exit_code = None\<rparr>;
                              st2 = st1\<lparr>jobs := AList.update jid entry (jobs st1),
                                        task_queue := jid # task_queue st1\<rparr>;
                              st3 = add_shell_context command
                                      (''Background job ['' @ str_int jid @ ''] started with PID ''
                                         @ str_int pid) st2
                          in st3\<lparr>monitors := monitors st3 @ [jid]\<rparr>))))"

text \<open>
  One iteration of the loop of the monitor thread of job \<open>jid\<close>; \<open>monitors\<close> lists the jobs
  whose monitor thread is still in its loop.  The argument is what \<^verbatim>\<open>process.poll()\<close>
  gives in this iteration.
\<close>

definition monitor_step :: "executor \<Rightarrow> int \<Rightarrow> poll_result \<Rightarrow> executor" where
  "monitor_step st jid p =
     (if jid \<notin> set (monitors st) then st
      else
        (let ended = st\<lparr>monitors := removeAll jid (monitors st)\<rparr>
         in case map_of (jobs st) jid of
              None \<Rightarrow> ended
            | Some job_info \<Rightarrow>
                (case p of
                   PollRaised \<Rightarrow> set_job jid (\<lambda>j. j\<lparr>job_status := Failed\<rparr>) ended
                 | PollExit exit_code \<Rightarrow>
                     set_job jid (\<lambda>j. j\<lparr>job_status := Done, job_exit_code := Some exit_code\<rparr>) ended
                 | PollRunning \<Rightarrow> if job_status job_info = Stopped then ended else st)))"

definition cleanup_job :: "os_model \<Rightarrow> int \<Rightarrow> executor \<Rightarrow> executor" where
  "cleanup_job os jid st =
     (case map_of (jobs st) jid of
        None \<Rightarrow> st
      | Some job_info \<Rightarrow>
          if job_status job_info = Running \<or> job_status job_info = Stopped
          then
            (let st1 =
                   (case send_signal_to_job os st jid SIGTERM of
                      (True, s) \<Rightarrow>
                        if job_process job_info
                        then (case os_poll os (job_pid job_info) of
                                None \<Rightarrow> snd (send_signal_to_job os s jid SIGKILL)
                              | Some exit_code \<Rightarrow> s)
                        else s
                    | (False, s) \<Rightarrow> s)
             in set_job jid (\<lambda>j. j\<lparr>job_status := Done, job_exit_code := Some (- 1)\<rparr>) st1)
          else st)"

definition cleanup_all_jobs :: "os_model \<Rightarrow> executor \<Rightarrow> executor" where
  "cleanup_all_jobs os st =
     (if jobs st = [] then st else fold (cleanup_job os) (map fst (jobs st)) st)"

definition handle_job_control_command :: "os_model \<Rightarrow> executor \<Rightarrow> string \<Rightarrow> exn option \<times> executor" where
  "handle_job_control_command os st command =
     (case py_split (py_strip command) of
        [] \<Rightarrow> (None, st)
      | cmd # args \<Rightarrow>
          if cmd = ''jobs'' then (None, dispatched JobsList command st)
          else if cmd = ''fg'' \<or> cmd = ''bg''
          then
            (let target =
                   (case args of
                      [] \<Rightarrow>
                        find (\<lambda>jid. case map_of (jobs st) jid of
                                       None \<Rightarrow> False
                                     | Some job_info \<Rightarrow>
                                         if cmd = ''fg''
                                         then job_status job_info = Running \<or> job_status job_info = Stopped
                                         else job_status job_info = Stopped)
                             (task_queue st)
                    | job_spec # _ \<Rightarrow> parse_job_spec st job_spec)
             in case target of
                  None \<Rightarrow>
                    (None,
                     display_error command
                       (if args = []
                        then cmd @ '': no '' @ (if cmd = ''fg'' then ''running or stopped'' else ''stopped'')
                               @ '' job found''
                        else cmd @ '': no such job'') st)
                | Some jid \<Rightarrow>
                    if cmd = ''fg'' then bring_job_to_foreground os st jid
                    else (None, resume_background_job os st jid))
          else (None, display_error command (''Unknown job control command: '' @ cmd) st))"

text \<open>
  Everything that acts on the job table, as events of a session; each event comes with
  the operating system's answers at that moment.
\<close>

datatype event =
    ExecBackground string
  | JobControl string
  | BringToForeground int
  | ResumeBackground int
  | SuspendForeground
  | InterruptForeground
  | MonitorPoll int poll_result
  | CleanupAll

fun step :: "os_model \<times> event \<Rightarrow> executor \<Rightarrow> executor" where
  "step (os, ExecBackground command) st = execute_background_command os st command"
| "step (os, JobControl command) st = snd (handle_job_control_command os st command)"
| "step (os, BringToForeground jid) st = snd (bring_job_to_foreground os st jid)"
| "step (os, ResumeBackground jid) st = resume_background_job os st jid"
| "step (os, SuspendForeground) st = snd (suspend_foreground_job os st)"
| "step (os, InterruptForeground) st = snd (interrupt_foreground_job os st)"
| "step (os, MonitorPoll jid p) st = monitor_step st jid p"
| "step (os, CleanupAll) st = cleanup_all_jobs os st"

definition run :: "(os_model \<times> event) list \<Rightarrow> executor \<Rightarrow> executor" where
  "run evs st = fold step evs st"

text \<open>
  The ids that an event gives out: those it puts at the front of the selection sequence
  (\<^verbatim>\<open>self.task_queue.appendleft(job_id)\<close> in the launch), oldest first; and the ids
  given out in a session, in the order of its events.
\<close>

definition launched_ids :: "os_model \<times> event \<Rightarrow> executor \<Rightarrow> int list" where
  "launched_ids e st =
     rev (take (length (task_queue (step e st)) - length (task_queue st))
            (task_queue (step e st)))"

fun assigned_ids :: "(os_model \<times> event) list \<Rightarrow> executor \<Rightarrow> int list" where
  "assigned_ids [] st = []"
| "assigned_ids (e # evs) st = launched_ids e st @ assigned_ids evs (step e st)"

section \<open>Identity of job-table entries\<close>

text \<open>
  The keys of the job table with the \<^verbatim>\<open>"id"\<close> field of each entry; what an operation
  leaves alone when it creates no entry; and the invariant that every key is its entry's
  id and lies below the next id to be given out.
\<close>

definition idents :: "executor \<Rightarrow> (int \<times> int) list" where
  "idents st = map (\<lambda>(k, j). (k, job_id j)) (jobs st)"

definition same_ids :: "executor \<Rightarrow> executor \<Rightarrow> bool" where
  "same_ids st st' =
     (idents st' = idents st \<and> next_job_id st' = next_job_id st
      \<and> task_queue st' = task_queue st)"

definition ids_inv :: "executor \<Rightarrow> bool" where
  "ids_inv st = (list_all (\<lambda>(k, i). i = k \<and> k < next_job_id st) (idents st))"

text \<open>The keys that one event adds to the job table.\<close>

definition step_new :: "os_model \<times> event \<Rightarrow> executor \<Rightarrow> int list" where
  "step_new e st = filter (\<lambda>j. j \<notin> set (map fst (jobs st))) (map fst (jobs (step e st)))"

section \<open>Auxiliary notions for job-spec resolution\<close>







text \<open>The events that are iterations of a monitor thread.\<close>

definition monitor_event :: "event \<Rightarrow> bool" where
  "monitor_event ev = (case ev of MonitorPoll jid p \<Rightarrow> True | _ \<Rightarrow> False)"



section \<open>Changing directory\<close>

text \<open>
  The policy data of \<^verbatim>\<open>Config\<close> that the dispatch core reads.
\<close>

record config =
  cd_feedback_enabled :: bool
  interactive_commands :: "string list"
  streaming_commands :: "string list"

text \<open>
  \<^verbatim>\<open>os.path.expanduser\<close> returns a path that does not start with \<open>~\<close> as it is; what it
  makes of the other paths is the system's answer.  \<^verbatim>\<open>os.path.join\<close> of two components
  and \<^verbatim>\<open>os.path.isabs\<close> are the POSIX ones.
\<close>

definition expanduser :: "os_model \<Rightarrow> string \<Rightarrow> string" where
  "expanduser os path = (if startswith path ''~'' then os_expanduser os path else path)"

definition os_path_join :: "string \<Rightarrow> string \<Rightarrow> string" where
  "os_path_join a b =
     (if startswith b ''/'' then b
      else if a = [] \<or> endswith a ''/'' then a @ b
      else a @ ''/'' @ b)"

definition os_path_isabs :: "string \<Rightarrow> bool" where
  "os_path_isabs path = startswith path ''/''"

text \<open>The path that \<^verbatim>\<open>_handle_cd_command\<close> hands to \<^verbatim>\<open>os.chdir\<close>.\<close>

definition cd_target :: "os_model \<Rightarrow> executor \<Rightarrow> string \<Rightarrow> string" where
  "cd_target os st command =
     (let path = py_strip (drop 3 command)
      in if path = [] then expanduser os ''~''
         else if path = ''-''
         then (if previous_directory st \<noteq> [] then previous_directory st else expanduser os ''~'')
         else expanduser os path)"

text \<open>
  The \<^verbatim>\<open>except OSError\<close> branch: the error is displayed and logged; any other exception
  leaves the handler.
\<close>

definition cd_failed :: "string \<Rightarrow> exn \<Rightarrow> executor \<Rightarrow> exn option \<times> executor" where
  "cd_failed command e st =
     (case e of
        OSError msg \<Rightarrow>
          (None, add_shell_context command (''cd: '' @ msg)
                   (display_error command (''cd: '' @ msg) st))
      | _ \<Rightarrow> (Some e, st))"

definition handle_cd_command :: "config \<Rightarrow> os_model \<Rightarrow> executor \<Rightarrow> string \<Rightarrow> exn option \<times> executor" where
  "handle_cd_command cfg os st command =
     (let path = cd_target os st command
      in case os_getcwd os (cwd st) of
           Inl e \<Rightarrow> cd_failed command e st
         | Inr old_dir \<Rightarrow>
             (case os_chdir os (cwd st) path of
                Inl e \<Rightarrow> cd_failed command e st
              | Inr entered \<Rightarrow>
                  (let st1 = st\<lparr>cwd := entered\<rparr>
                   in case os_getcwd os entered of
                        Inl e \<Rightarrow> cd_failed command e st1
                      | Inr new_dir \<Rightarrow>
                          (let st2 = st1\<lparr>previous_directory := old_dir\<rparr>;
                               st3 = (if cd_feedback_enabled cfg
                                      then st2\<lparr>ui := ui st2 @ [DirectoryChange command new_dir]\<rparr>
                                      else st2)
                           in (None, add_shell_context command
                                       (''Changed directory to: '' @ new_dir) st3)))))"

text \<open>\<^verbatim>\<open>str.split(sep)\<close> with a one-character separator.\<close>

fun py_split_on :: "char \<Rightarrow> string \<Rightarrow> string \<Rightarrow> string list" where
  "py_split_on sep cur [] = [cur]"
| "py_split_on sep cur (c # cs) =
     (if c = sep then cur # py_split_on sep [] cs else py_split_on sep (cur @ [c]) cs)"

definition shell_builtin_names :: "string list" where
  "shell_builtin_names =
     [''cd'', ''ls'', ''pwd'', ''echo'', ''cat'', ''mkdir'', ''rm'', ''cp'', ''mv'', ''grep'',
      ''find'', ''chmod'', ''chown'', ''ps'', ''kill'', ''jobs'', ''fg'', ''bg'', ''export'',
      ''unset'', ''alias'', ''unalias'', ''source'', ''.'', ''exit'', ''clear'', ''history'',
      ''type'', ''which'', ''whereis'']"

definition is_known_command :: "os_model \<Rightarrow> executor \<Rightarrow> string \<Rightarrow> bool" where
  "is_known_command os st cmd =
     (cmd \<in> set shell_builtin_names
      \<or> map_of (aliases st) cmd \<noteq> None
      \<or> list_ex (\<lambda>directory. directory \<noteq> [] \<and> os_isfile_executable os (os_path_join directory cmd))
           (py_split_on CHR '':'' []
              (case map_of (environ st) ''PATH'' of None \<Rightarrow> [] | Some v \<Rightarrow> v)))"

text \<open>
  \<^verbatim>\<open>_handle_auto_cd\<close>: the answer of the handler, the exception that left it (if any)
  and the state.
\<close>

definition handle_auto_cd :: "config \<Rightarrow> os_model \<Rightarrow> executor \<Rightarrow> string \<Rightarrow> bool \<times> exn option \<times> executor" where
  "handle_auto_cd cfg os st command =
     (let cmd = py_strip command
      in if CHR '' '' \<in> set cmd then (False, None, st)
         else if cmd = [] then (False, None, st)
         else if cmd = ''.'' \<or> cmd = ''..'' \<or> cmd = ''-''
         then (True, handle_cd_command cfg os st (''cd '' @ cmd))
         else if is_known_command os st cmd then (False, None, st)
         else
           (case (if os_path_isabs cmd then Inr cmd
                  else map_sum id (\<lambda>d. os_path_join d cmd) (os_getcwd os (cwd st))) of
              Inl e \<Rightarrow> (False, Some e, st)
            | Inr path \<Rightarrow>
                if os_isdir os path then (True, handle_cd_command cfg os st (''cd '' @ cmd))
                else if startswith cmd ''~'' \<and> os_isdir os (expanduser os cmd)
                then (True, handle_cd_command cfg os st (''cd '' @ cmd))
                else (False, None, st)))"

section \<open>Tokenising and quoting\<close>

text \<open>
  \<^verbatim>\<open>shlex.split(s)\<close> in POSIX mode, splitting at whitespace only and without comments: the
  scanner of \<^verbatim>\<open>shlex.read_token\<close> run over the whole input.  The four states are the
  scanner's \<^verbatim>\<open>' '\<close>, \<^verbatim>\<open>'a'\<close>, an open quote, and the escape character (which keeps the
  state to go back to: a word, or the quote it stands in).  \<open>quoted\<close> is the scanner's
  flag of the same name.  \<open>Inl\<close> carries the message of the \<^verbatim>\<open>ValueError\<close>.
\<close>

datatype lex_state = LexSpace | LexWord | LexQuote char | LexEscape "char option"

definition backslash :: char where
  "backslash = CHR 0x5C"

definition single_quote :: char where
  "single_quote = CHR 0x27"

definition double_quote :: char where
  "double_quote = CHR 0x22"

definition shlex_whitespace :: "char \<Rightarrow> bool" where
  "shlex_whitespace c = (c = CHR '' '' \<or> c = CHR 0x09 \<or> c = CHR 0x0D \<or> c = CHR 0x0A)"

definition shlex_quote_char :: "char \<Rightarrow> bool" where
  "shlex_quote_char c = (c = single_quote \<or> c = double_quote)"

definition emit :: "string \<Rightarrow> string + string list \<Rightarrow> string + string list" where
  "emit tok r = map_sum id (\<lambda>toks. tok # toks) r"

fun shlex_scan :: "lex_state \<Rightarrow> string \<Rightarrow> bool \<Rightarrow> string \<Rightarrow> string + string list" where
  "shlex_scan st tok quoted [] =
     (case st of
        LexSpace \<Rightarrow> Inr []
      | LexWord \<Rightarrow> (if tok \<noteq> [] \<or> quoted then Inr [tok] else Inr [])
      | LexQuote d \<Rightarrow> Inl ''No closing quotation''
      | LexEscape e \<Rightarrow> Inl ''No escaped character'')"
| "shlex_scan st tok quoted (c # cs) =
     (case st of
        LexSpace \<Rightarrow>
          if shlex_whitespace c then shlex_scan LexSpace [] False cs
          else if c = backslash then shlex_scan (LexEscape None) tok quoted cs
          else if shlex_quote_char c then shlex_scan (LexQuote c) tok quoted cs
          else shlex_scan LexWord [c] quoted cs
      | LexQuote d \<Rightarrow>
          if c = d then shlex_scan LexWord tok True cs
          else if c = backslash \<and> d = double_quote
          then shlex_scan (LexEscape (Some d)) tok True cs
          else shlex_scan (LexQuote d) (tok @ [c]) True cs
      | LexEscape e \<Rightarrow>
          (case e of
             None \<Rightarrow> shlex_scan LexWord (tok @ [c]) quoted cs
           | Some d \<Rightarrow>
               shlex_scan (LexQuote d)
                 ((if c \<noteq> backslash \<and> c \<noteq> d then tok @ [backslash] else tok) @ [c]) quoted cs)
      | LexWord \<Rightarrow>
          if shlex_whitespace c
          then (if tok \<noteq> [] \<or> quoted then emit tok (shlex_scan LexSpace [] False cs)
                else shlex_scan LexSpace [] False cs)
          else if shlex_quote_char c then shlex_scan (LexQuote c) tok quoted cs
          else if c = backslash then shlex_scan (LexEscape None) tok quoted cs
          else shlex_scan LexWord (tok @ [c]) quoted cs)"

definition shlex_split :: "string \<Rightarrow> string + string list" where
  "shlex_split s = shlex_scan LexSpace [] False s"

text \<open>
  \<^verbatim>\<open>shlex.quote\<close>: the empty string becomes two quotes, a string of safe characters stays,
  any other string is put between single quotes with each single quote spelled
  \<^verbatim>\<open>'"'"'\<close>.
\<close>

definition is_ascii_alnum :: "char \<Rightarrow> bool" where
  "is_ascii_alnum c =
     (let n = (of_char c :: nat)
      in (48 \<le> n \<and> n \<le> 57) \<or> (65 \<le> n \<and> n \<le> 90) \<or> (97 \<le> n \<and> n \<le> 122))"



text \<open>
  \<^verbatim>\<open>re.match(r"^[A-Za-z_][A-Za-z0-9_]*$", name)\<close>: \<^verbatim>\<open>$\<close> also matches before a newline
  that ends the string.
\<close>

definition ident_start :: "char \<Rightarrow> bool" where
  "ident_start c =
     (let n = (of_char c :: nat)
      in (65 \<le> n \<and> n \<le> 90) \<or> (97 \<le> n \<and> n \<le> 122) \<or> c = CHR ''_'')"

definition ident_char :: "char \<Rightarrow> bool" where
  "ident_char c = (is_ascii_alnum c \<or> c = CHR ''_'')"

definition is_valid_identifier :: "string \<Rightarrow> bool" where
  "is_valid_identifier name =
     (case name of
        [] \<Rightarrow> False
      | c # cs \<Rightarrow>
          ident_start c
          \<and> (list_all ident_char cs
               \<or> (cs \<noteq> [] \<and> last cs = CHR 0x0A \<and> list_all ident_char (butlast cs))))"

text \<open>\<^verbatim>\<open>token.split("=", 1)\<close> for a token that contains \<open>=\<close>, and \<^verbatim>\<open>value.strip("'\"")\<close>.\<close>

definition split_assignment :: "string \<Rightarrow> string \<times> string" where
  "split_assignment token =
     (takeWhile (\<lambda>c. c \<noteq> CHR ''='') token, drop 1 (dropWhile (\<lambda>c. c \<noteq> CHR ''='') token))"

definition strip_quotes :: "string \<Rightarrow> string" where
  "strip_quotes v = rev (dropWhile shlex_quote_char (rev (dropWhile shlex_quote_char v)))"

section \<open>The alias file\<close>

text \<open>
  \<^verbatim>\<open>json.dumps(d, indent=2)\<close> for a dictionary of strings.  A string is written between
  double quotes; the quote and the backslash are escaped, the control characters 8, 9,
  10, 12 and 13 have their short escapes, and every other character outside the range
  from the space to the tilde is written as \<^verbatim>\<open>\u\<close> and four hexadecimal digits.
\<close>

definition hex_digit :: "nat \<Rightarrow> char" where
  "hex_digit d = ''0123456789abcdef'' ! d"

definition json_escape_char :: "char \<Rightarrow> string" where
  "json_escape_char c =
     (let n = (of_char c :: nat)
      in if c = double_quote then [backslash, double_quote]
         else if c = backslash then [backslash, backslash]
         else if n = 10 then [backslash, CHR ''n'']
         else if n = 13 then [backslash, CHR ''r'']
         else if n = 9 then [backslash, CHR ''t'']
         else if n = 8 then [backslash, CHR ''b'']
         else if n = 12 then [backslash, CHR ''f'']
         else if 32 \<le> n \<and> n \<le> 126 then [c]
         else [backslash, CHR ''u'', CHR ''0'', CHR ''0'', hex_digit (n div 16), hex_digit (n mod 16)])"

definition json_string :: "string \<Rightarrow> string" where
  "json_string s = [double_quote] @ concat (map json_escape_char s) @ [double_quote]"

definition json_member :: "string \<times> string \<Rightarrow> string" where
  "json_member kv = ''  '' @ json_string (fst kv) @ '': '' @ json_string (snd kv)"

definition json_dumps :: "(string \<times> string) list \<Rightarrow> string" where
  "json_dumps d =
     (if d = [] then ''{}''
      else ''{'' @ [CHR 0x0A] @ py_join ('','' @ [CHR 0x0A]) (map json_member d)
           @ [CHR 0x0A] @ ''}'')"

text \<open>
  \<^verbatim>\<open>_save_aliases\<close>: the file is written with the dump of the alias table; when the write
  raises, the exception is swallowed and nothing changes.
\<close>

definition save_aliases :: "os_model \<Rightarrow> executor \<Rightarrow> executor" where
  "save_aliases os st =
     (if os_write_alias_file os
      then st\<lparr>alias_file := Some (json_dumps (aliases st)), available_commands_cache := None\<rparr>
      else st)"










section \<open>Aliases and environment variables\<close>

text \<open>
  The loop over the arguments of \<^verbatim>\<open>alias\<close> and \<^verbatim>\<open>export\<close>: every token is checked and
  put into the dictionary \<^verbatim>\<open>updates\<close>; the first bad token ends the loop with the text
  of the error.  \<open>unquote\<close> is what is done to the value (\<^verbatim>\<open>alias\<close> strips quotes,
  \<^verbatim>\<open>export\<close> keeps it).
\<close>

fun collect_updates ::
  "string \<Rightarrow> string \<Rightarrow> (string \<Rightarrow> string) \<Rightarrow> (string \<times> string) list \<Rightarrow> string list
     \<Rightarrow> string + (string \<times> string) list" where
  "collect_updates who what unquote updates [] = Inr updates"
| "collect_updates who what unquote updates (token # tokens) =
     (if CHR ''='' \<notin> set token
      then Inl (who @ '': invalid '' @ what @ '' '' @ [single_quote] @ token @ [single_quote])
      else
        (let name = fst (split_assignment token);
             val = unquote (snd (split_assignment token))
         in if \<not> is_valid_identifier name
            then Inl (who @ '': invalid name '' @ [single_quote] @ name @ [single_quote])
            else collect_updates who what unquote (AList.update name val updates) tokens))"

text \<open>\<^verbatim>\<open>d.update(updates)\<close> on dictionaries.\<close>

definition dict_update :: "('k \<times> 'v) list \<Rightarrow> ('k \<times> 'v) list \<Rightarrow> ('k \<times> 'v) list" where
  "dict_update updates d = fold (\<lambda>(k, v). AList.update k v) updates d"

definition display_aliases :: "string \<Rightarrow> executor \<Rightarrow> executor" where
  "display_aliases command st = dispatched AliasList command st"

definition handle_alias_command :: "os_model \<Rightarrow> executor \<Rightarrow> string \<Rightarrow> executor" where
  "handle_alias_command os st command =
     (case shlex_split command of
        Inl err \<Rightarrow> display_error command (''alias: '' @ err) st
      | Inr tokens \<Rightarrow>
          if length tokens = 1 then display_aliases command st
          else
            (case collect_updates ''alias'' ''definition'' strip_quotes [] (drop 1 tokens) of
               Inl msg \<Rightarrow> display_error command msg st
             | Inr updates \<Rightarrow>
                 (let st1 = st\<lparr>aliases := dict_update updates (aliases st)\<rparr>;
                      st2 = save_aliases os st1
                  in st2\<lparr>available_commands_cache := None\<rparr>)))"

text \<open>
  \<^verbatim>\<open>_handle_unalias_command\<close>: the names that are aliases are deleted, one after the other;
  the file is saved when at least one was.
\<close>

fun remove_names :: "string list \<Rightarrow> (string \<times> string) list \<Rightarrow> string list \<times> (string \<times> string) list" where
  "remove_names [] d = ([], d)"
| "remove_names (name # names) d =
     (if map_of d name \<noteq> None
      then (case remove_names names (AList.delete name d) of (removed, d') \<Rightarrow> (name # removed, d'))
      else remove_names names d)"

definition handle_unalias_command :: "os_model \<Rightarrow> executor \<Rightarrow> string \<Rightarrow> executor" where
  "handle_unalias_command os st command =
     (case shlex_split command of
        Inl err \<Rightarrow> display_error command (''unalias: '' @ err) st
      | Inr tokens \<Rightarrow>
          if length tokens < 2 then display_error command ''unalias: requires a name'' st
          else
            (case remove_names (drop 1 tokens) (aliases st) of
               (removed, d) \<Rightarrow>
                 (let st1 = st\<lparr>aliases := d\<rparr>
                  in if removed \<noteq> []
                     then (save_aliases os st1)\<lparr>available_commands_cache := None\<rparr>
                     else st1)))"

definition handle_alias_management :: "os_model \<Rightarrow> executor \<Rightarrow> string \<Rightarrow> bool \<times> executor" where
  "handle_alias_management os st command =
     (if command = ''alias'' then (True, display_aliases command st)
      else if startswith command ''alias '' then (True, handle_alias_command os st command)
      else if startswith command ''unalias'' then (True, handle_unalias_command os st command)
      else (False, st))"

text \<open>
  \<^verbatim>\<open>os.environ[name] = value\<close> raises \<^verbatim>\<open>ValueError\<close> on a null character in the value (the
  names that reach it are valid identifiers).  The assignments are made in the order of
  the dictionary and stop at the first one that raises.
\<close>

fun set_environ :: "(string \<times> string) list \<Rightarrow> executor \<Rightarrow> exn option \<times> executor" where
  "set_environ [] st = (None, st)"
| "set_environ ((name, val) # rest) st =
     (if CHR 0x00 \<in> set val then (Some (OtherError ''embedded null byte''), st)
      else set_environ rest (st\<lparr>environ := AList.update name val (environ st)\<rparr>))"

definition handle_export_command :: "executor \<Rightarrow> string \<Rightarrow> bool \<times> exn option \<times> executor" where
  "handle_export_command st command =
     (if \<not> startswith command ''export'' then (False, None, st)
      else
        (case shlex_split command of
           Inl err \<Rightarrow> (True, None, display_error command (''export: '' @ err) st)
         | Inr tokens \<Rightarrow>
             if length tokens = 1 then (True, None, st)
             else
               (case collect_updates ''export'' ''assignment'' id [] (drop 1 tokens) of
                  Inl msg \<Rightarrow> (True, None, display_error command msg st)
                | Inr updates \<Rightarrow> (True, set_environ updates st))))"

definition handle_unset_command :: "executor \<Rightarrow> string \<Rightarrow> bool \<times> executor" where
  "handle_unset_command st command =
     (if \<not> startswith command ''unset '' then (False, st)
      else
        (case shlex_split command of
           Inl err \<Rightarrow> (True, display_error command (''unset: '' @ err) st)
         | Inr tokens \<Rightarrow>
             if length tokens < 2
             then (True, display_error command ''unset: requires a variable name'' st)
             else (True, st\<lparr>environ := snd (remove_names (drop 1 tokens) (environ st))\<rparr>)))"



section \<open>The dispatcher\<close>

text \<open>
  The handlers that lie outside the dispatch core (help, configuration reload, memory
  cleanup, environment information, the script runtime, the file browser, screen clearing,
  \<^verbatim>\<open>source\<close>, \<^verbatim>\<open>activate\<close> and \<^verbatim>\<open>deactivate\<close>, streaming and captured execution) are
  parameters: \<open>run_handler\<close> is what such a handler does to the state and the exception
  that leaves it, if any; \<open>streaming_handled\<close> is the answer of
  \<^verbatim>\<open>_handle_streaming_interactive_command\<close>.  A call is recorded in the log first.
\<close>

record collaborators =
  run_handler :: "decision \<Rightarrow> string \<Rightarrow> executor \<Rightarrow> exn option \<times> executor"
  streaming_handled :: "string \<Rightarrow> bool"

definition call_handler ::
  "collaborators \<Rightarrow> decision \<Rightarrow> string \<Rightarrow> executor \<Rightarrow> exn option \<times> executor" where
  "call_handler col d line st = run_handler col d line (dispatched d line st)"

text \<open>\<^verbatim>\<open>str(error)\<close>.\<close>

definition exn_message :: "exn \<Rightarrow> string" where
  "exn_message e = (case e of OSError m \<Rightarrow> m | OtherError m \<Rightarrow> m | KeyboardInterrupt \<Rightarrow> [])"














text \<open>
  \<^verbatim>\<open>_handle_environment_commands\<close>: every \<^verbatim>\<open>Exception\<close> of the handler is caught and
  displayed; a keyboard interrupt leaves the function.
\<close>

definition handle_environment_commands ::
  "collaborators \<Rightarrow> executor \<Rightarrow> string \<Rightarrow> bool \<times> exn option \<times> executor" where
  "handle_environment_commands col st command =
     (if \<not> startswith command ''!'' then (False, None, st)
      else
        (let env_cmd = drop 1 command
         in if env_cmd \<in> set [''env'', ''status'', ''git'', ''python'']
            then
              (case call_handler col EnvironmentInfo command st of
                 (None, s) \<Rightarrow>
                   (True, None,
                    add_shell_context command
                      (''Environment command '' @ [single_quote] @ env_cmd @ [single_quote]
                         @ '' executed'') s)
               | (Some KeyboardInterrupt, s) \<Rightarrow> (True, Some KeyboardInterrupt, s)
               | (Some e, s) \<Rightarrow>
                   (let error_msg = ''Environment command error: '' @ exn_message e
                    in (True, None,
                        add_shell_context command (''Error: '' @ error_msg)
                          (display_error command error_msg s))))
            else
              (let error_msg = ''Unknown environment command: '' @ env_cmd
               in (True, None,
                   add_shell_context command (''Error: '' @ error_msg)
                     (display_error command error_msg st)))))"

definition handle_script_commands ::
  "collaborators \<Rightarrow> executor \<Rightarrow> string \<Rightarrow> bool \<times> exn option \<times> executor" where
  "handle_script_commands col st command =
     (if command \<in> set [''py'', ''py enter'', ''py exit'', ''exitpy'', ''py reset'', ''py cancel'']
         \<or> startswith command ''py ''
      then (True, call_handler col ScriptCommand command st)
      else (False, None, st))"












section \<open>Initial state and sample environment\<close>

text \<open>
  \<^verbatim>\<open>__init__\<close>: the previous directory is the current one, the job table and the selection
  sequence are empty and the next job id is 1.  The loaded aliases, the alias file and the
  process environment are given.
\<close>

definition new_executor ::
  "string \<Rightarrow> (string \<times> string) list \<Rightarrow> string option \<Rightarrow> (string \<times> string) list \<Rightarrow> executor" where
  "new_executor dir loaded file env =
     \<lparr>cwd = dir, previous_directory = dir, aliases = loaded, alias_file = file, environ = env,
      available_commands_cache = None, script_active = False, jobs = [], task_queue = [],
      next_job_id = 1, foreground_job = None, saved_terminal = False,
      terminal = OwnedByShell, monitors = [], os_log = [], ui = []\<rparr>"

text \<open>A POSIX system on which every call succeeds, used for the concrete instances.\<close>

definition demo_os :: os_model where
  "demo_os =
     \<lparr>os_posix = True, os_getcwd = (\<lambda>d. Inr d),
      os_chdir = (\<lambda>d p. if p = ''/nonexistent''
                          then Inl (OSError ''[Errno 2] No such file or directory: /nonexistent'')
                          else Inr p),
      os_expanduser = (\<lambda>p. ''/home/user'' @ drop 1 p),
      os_isdir = (\<lambda>p. False), os_isfile_executable = (\<lambda>p. False),
      os_abspath = (\<lambda>d p. d @ ''/'' @ p),
      os_killpg = (\<lambda>g s. True), os_kill = (\<lambda>p s. True),
      os_tcgetattr = True, os_tcsetpgrp = (\<lambda>g. True), os_tcgetpgrp = True,
      os_tcsetpgrp_shell = True, os_tcsetattr = True,
      os_popen = (\<lambda>c. Inr 4242), os_getpgid = (\<lambda>p. Some p),
      os_wait = (\<lambda>p. Exited 0), os_poll = (\<lambda>p. None),
      os_write_alias_file = True, os_arithmetic = (\<lambda>e. None)\<rparr>"

definition demo_start :: executor where
  "demo_start = new_executor ''/home/user'' [] None []"







text \<open>The same system when the process group of a new child cannot be read.\<close>

definition demo_os_no_pgid :: os_model where
  "demo_os_no_pgid = demo_os\<lparr>os_getpgid := (\<lambda>p. None)\<rparr>"

text \<open>A session: a launch, the shutdown cleanup, and another launch.\<close>

definition demo_events :: "(os_model \<times> event) list" where
  "demo_events =
     [(demo_os, ExecBackground ''sleep 100 &''), (demo_os, CleanupAll),
      (demo_os, ExecBackground ''sleep 100 &'')]"

text \<open>The entry of the job of the sample session, and the state after its launch.\<close>

definition demo_job :: "job_status \<Rightarrow> int option \<Rightarrow> job" where
  "demo_job s e =
     \<lparr>job_id = 1, job_pid = 4242, job_pgid = Some 4242, job_process = True,
      job_command = ''sleep 100'', job_status = s, job_exit_code = e\<rparr>"

definition demo_launched :: executor where
  "demo_launched = execute_background_command demo_os demo_start ''sleep 100 &''"

text \<open>The defaults of \<^verbatim>\<open>Config\<close>.\<close>

definition default_config :: config where
  "default_config =
     \<lparr>cd_feedback_enabled = False,
      interactive_commands =
        [''nano'', ''vim'', ''vi'', ''emacs'', ''mc'', ''htop'', ''top'', ''fzf'', ''less'',
         ''more'', ''man'', ''tmux'', ''screen'', ''python3'', ''python'', ''node'', ''irb'',
         ''psql'', ''mysql'', ''nvim'', ''nu'', ''xonsh'', ''apt'', ''sudo'', ''sqlite3'',
         ''redis-cli'', ''mongo'', ''bash'', ''zsh'', ''fish'', ''jobs'', ''fg'', ''bg'',
         ''tree'', ''ping''],
      streaming_commands =
        [''apt'', ''apt-get'', ''pip'', ''pip3'', ''npm'', ''pnpm'', ''yarn'', ''poetry'',
         ''composer'', ''cargo'', ''brew'', ''bundle'', ''go'', ''apk'', ''ping'']\<rparr>"

section \<open>Evaluation of the sample session\<close>

lemma py_isspace_simps:
  "py_isspace CHR '' '' = True" "py_isspace CHR ''&'' = False" "py_isspace CHR ''0'' = False"
  by (simp_all add: py_isspace_def)

lemma str_int_simps: "str_int 4242 = ''4242''" "str_int 1 = ''1''" "str_int 2 = ''2''"
  by (simp_all add: str_int_def str_nat.simps digit_char_def)

lemma demo_launch_no_pgid:
  "execute_background_command demo_os_no_pgid demo_start ''sleep 100 &'' =
     demo_start
       \<lparr>jobs := [(1, \<lparr>job_id = 1, job_pid = 4242, job_pgid = None, job_process = True,
                      job_command = ''sleep 100'', job_status = Running,
                      job_exit_code = None\<rparr>)],
        task_queue := [1], next_job_id := 2, monitors := [1],
        ui := [ShellContext ''sleep 100 &'' ''Background job [1] started with PID 4242'']\<rparr>"
  by (simp add: execute_background_command_def demo_os_no_pgid_def demo_os_def demo_start_def
      new_executor_def py_rstrip_def py_isspace_simps Let_def add_shell_context_def str_int_simps)

lemma demo_launch:
  "execute_background_command demo_os demo_start ''sleep 100 &'' =
     demo_start
       \<lparr>jobs := [(1, \<lparr>job_id = 1, job_pid = 4242, job_pgid = Some 4242, job_process = True,
                      job_command = ''sleep 100'', job_status = Running,
                      job_exit_code = None\<rparr>)],
        task_queue := [1], next_job_id := 2, monitors := [1],
        ui := [ShellContext ''sleep 100 &'' ''Background job [1] started with PID 4242'']\<rparr>"
  by (simp add: execute_background_command_def demo_os_def demo_start_def new_executor_def
      py_rstrip_def py_isspace_simps Let_def add_shell_context_def str_int_simps)

lemma demo_launched_eq:
  "demo_launched =
     demo_start
       \<lparr>jobs := [(1, demo_job Running None)],
        task_queue := [1], next_job_id := 2, monitors := [1],
        ui := [ShellContext ''sleep 100 &'' ''Background job [1] started with PID 4242'']\<rparr>"
  by (simp add: demo_launched_def demo_launch demo_job_def)

lemma demo_cleanup_eq:
  "cleanup_all_jobs demo_os demo_launched =
     demo_launched\<lparr>jobs := [(1, demo_job Done (Some (- 1)))],
                   os_log := [Killpg 4242 SIGTERM, Killpg 4242 SIGKILL]\<rparr>"
  by (simp add: demo_launched_eq cleanup_all_jobs_def cleanup_job_def send_signal_to_job_def
      set_job_def demo_os_def demo_start_def new_executor_def demo_job_def)


section \<open>Signal delivery\<close>

text \<open>
  C5, as the code has it.  For a tracked job that has a process-group id and a process id
  (both non-zero), a signal is first delivered to the process group; only if that fails
  is it delivered to the process; the result is failure exactly when both deliveries
  fail.  For a tracked job without a process-group id (or with id 0) the guard of
  \<^verbatim>\<open>_send_signal_to_job\<close> returns failure and nothing is delivered.
\<close>

theorem send_signal_delivery:
  "map_of (jobs st) jid = Some job_info \<Longrightarrow>
   send_signal_to_job os st jid sig =
     (case job_pgid job_info of
        None \<Rightarrow> (False, st)
      | Some pgid \<Rightarrow>
          if pgid = 0 \<or> job_pid job_info = 0 then (False, st)
          else (os_killpg os pgid sig \<or> os_kill os (job_pid job_info) sig,
                st\<lparr>os_log := os_log st @
                      (if os_killpg os pgid sig then [Killpg pgid sig]
                       else [Killpg pgid sig, Kill (job_pid job_info) sig])\<rparr>))"
  by (simp add: send_signal_to_job_def split: option.splits)

theorem send_signal_delivery_witness:
  "send_signal_to_job (demo_os\<lparr>os_killpg := (\<lambda>g s. False)\<rparr>)
     (execute_background_command demo_os demo_start ''sleep 100 &'') 1 SIGTERM
   = (True, (execute_background_command demo_os demo_start ''sleep 100 &'')
              \<lparr>os_log := [Killpg 4242 SIGTERM, Kill 4242 SIGTERM]\<rparr>)"
  using send_signal_delivery [of "execute_background_command demo_os demo_start ''sleep 100 &''" 1
      "\<lparr>job_id = 1, job_pid = 4242, job_pgid = Some 4242, job_process = True,
        job_command = ''sleep 100'', job_status = Running, job_exit_code = None\<rparr>"
      "demo_os\<lparr>os_killpg := (\<lambda>g s. False)\<rparr>" SIGTERM]
  unfolding demo_launch
  by (simp add: demo_os_def demo_start_def new_executor_def)

text \<open>
  A job launched while the process group could not be read is tracked, a delivery to its
  process would succeed, and yet the operation reports failure without any delivery.
\<close>

theorem send_signal_no_pgid_counterexample:
  "map_of (jobs (execute_background_command demo_os_no_pgid demo_start ''sleep 100 &'')) 1 \<noteq> None
   \<and> os_kill demo_os 4242 SIGTERM
   \<and> send_signal_to_job demo_os
        (execute_background_command demo_os_no_pgid demo_start ''sleep 100 &'') 1 SIGTERM
      = (False, execute_background_command demo_os_no_pgid demo_start ''sleep 100 &'')
   \<and> os_log (execute_background_command demo_os_no_pgid demo_start ''sleep 100 &'') = []"
  unfolding demo_launch_no_pgid
  by (simp add: send_signal_to_job_def demo_os_def demo_start_def new_executor_def)

section \<open>Job identifiers\<close>

lemma map_fst_map_entry: "map fst (AList.map_entry k f xs) = map fst xs"
  by (induction xs) auto

lemma idents_map_entry:
  "(\<And>j. job_id (f j) = job_id j) \<Longrightarrow>
     map (\<lambda>(k, j). (k, job_id j)) (AList.map_entry k f xs) = map (\<lambda>(k, j). (k, job_id j)) xs"
  by (induction xs) auto

lemma set_job_frame:
  "(\<And>j. job_id (f j) = job_id j) \<Longrightarrow>
     map (\<lambda>(k, j). (k, job_id j)) (jobs (set_job j f st)) = map (\<lambda>(k, j). (k, job_id j)) (jobs st)"
  "next_job_id (set_job j f st) = next_job_id st"
  "task_queue (set_job j f st) = task_queue st"
  "foreground_job (set_job j f st) = foreground_job st"
  by (simp_all add: set_job_def idents_map_entry)

lemma send_signal_frame:
  "jobs (snd (send_signal_to_job os st j sig)) = jobs st"
  "next_job_id (snd (send_signal_to_job os st j sig)) = next_job_id st"
  "task_queue (snd (send_signal_to_job os st j sig)) = task_queue st"
  "foreground_job (snd (send_signal_to_job os st j sig)) = foreground_job st"
  by (simp_all add: send_signal_to_job_def split: option.splits)

lemma restore_frame:
  "jobs (snd (restore_terminal_control os st)) = jobs st"
  "next_job_id (snd (restore_terminal_control os st)) = next_job_id st"
  "task_queue (snd (restore_terminal_control os st)) = task_queue st"
  "foreground_job (snd (restore_terminal_control os st)) = foreground_job st"
  by (simp_all add: restore_terminal_control_def Let_def)

lemma setfg_frame:
  "jobs (snd (set_foreground_process_group os st g)) = jobs st"
  "next_job_id (snd (set_foreground_process_group os st g)) = next_job_id st"
  "task_queue (snd (set_foreground_process_group os st g)) = task_queue st"
  "foreground_job (snd (set_foreground_process_group os st g)) = foreground_job st"
  by (simp_all add: set_foreground_process_group_def Let_def)

lemma display_frame:
  "jobs (display_error c m st) = jobs st"
  "next_job_id (display_error c m st) = next_job_id st"
  "task_queue (display_error c m st) = task_queue st"
  "foreground_job (display_error c m st) = foreground_job st"
  "jobs (add_shell_context c m st) = jobs st"
  "next_job_id (add_shell_context c m st) = next_job_id st"
  "task_queue (add_shell_context c m st) = task_queue st"
  "foreground_job (add_shell_context c m st) = foreground_job st"
  "jobs (dispatched d c st) = jobs st"
  "next_job_id (dispatched d c st) = next_job_id st"
  "task_queue (dispatched d c st) = task_queue st"
  "foreground_job (dispatched d c st) = foreground_job st"
  by (simp_all add: display_error_def add_shell_context_def dispatched_def)

lemma send_signal_eq:
  "send_signal_to_job os st j sig = (b, s) \<Longrightarrow>
     jobs s = jobs st \<and> next_job_id s = next_job_id st \<and> task_queue s = task_queue st
     \<and> foreground_job s = foreground_job st"
  by (auto simp add: send_signal_to_job_def split: option.splits if_splits)

lemmas frames = set_job_frame send_signal_frame restore_frame setfg_frame display_frame


lemma same_ids_refl: "same_ids st st"
  by (simp add: same_ids_def)

lemma same_ids_trans: "same_ids a b \<Longrightarrow> same_ids b c \<Longrightarrow> same_ids a c"
  by (simp add: same_ids_def)

lemma idents_cong: "jobs st' = jobs st \<Longrightarrow> idents st' = idents st"
  by (simp add: idents_def)

lemma same_ids_set_job:
  "(\<And>j. job_id (f j) = job_id j) \<Longrightarrow> same_ids st (set_job j f st)"
  by (simp add: same_ids_def frames idents_def)

lemma same_ids_send: "same_ids st (snd (send_signal_to_job os st j sig))"
  by (simp add: same_ids_def frames idents_def)

lemma same_ids_send_eq: "send_signal_to_job os st j sig = (b, s) \<Longrightarrow> same_ids st s"
  by (auto simp add: same_ids_def idents_def dest!: send_signal_eq)

lemma same_ids_restore: "same_ids st (snd (restore_terminal_control os st))"
  by (simp add: same_ids_def frames idents_def)

lemma same_ids_setfg: "same_ids st (snd (set_foreground_process_group os st g))"
  by (simp add: same_ids_def frames idents_def)

lemma same_ids_display:
  "same_ids st (display_error c m st)"
  "same_ids st (add_shell_context c m st)"
  "same_ids st (dispatched d c st)"
  by (simp_all add: same_ids_def frames idents_def)

lemma same_ids_fg_update: "same_ids st (st\<lparr>foreground_job := x\<rparr>)"
  by (simp add: same_ids_def idents_def)

lemma same_ids_monitors_update: "same_ids st (st\<lparr>monitors := x\<rparr>)"
  by (simp add: same_ids_def idents_def)

lemmas same_ids_basic = same_ids_refl same_ids_send same_ids_restore
  same_ids_setfg same_ids_display same_ids_fg_update same_ids_monitors_update

lemma same_ids_suspend: "same_ids st (snd (suspend_foreground_job os st))"
  by (auto simp add: suspend_foreground_job_def Let_def same_ids_def frames idents_def
      split: option.splits prod.splits bool.splits dest!: send_signal_eq)

lemma same_ids_interrupt: "same_ids st (snd (interrupt_foreground_job os st))"
  by (auto simp add: interrupt_foreground_job_def Let_def same_ids_def frames idents_def
      split: option.splits prod.splits bool.splits dest!: send_signal_eq)

lemma same_ids_fg_begin:
  "fg_begin os st j = FgReturned s \<or> fg_begin os st j = FgWaiting s \<Longrightarrow> same_ids st s"
  by (auto simp add: fg_begin_def Let_def same_ids_def frames idents_def
      split: option.splits prod.splits bool.splits if_splits dest!: send_signal_eq)

lemma same_ids_fg_end: "same_ids st (snd (fg_end os st j u w))"
  by (auto simp add: fg_end_def Let_def same_ids_def frames idents_def split: wait_result.splits)

lemma same_ids_bring: "same_ids st (snd (bring_job_to_foreground os st j))"
  unfolding bring_job_to_foreground_def
  by (auto split: fg_stage.splits option.splits
      intro: same_ids_trans [OF same_ids_fg_begin same_ids_fg_end] same_ids_fg_begin)

lemma same_ids_resume: "same_ids st (resume_background_job os st j)"
  by (auto simp add: resume_background_job_def Let_def same_ids_def frames idents_def
      split: option.splits prod.splits bool.splits dest!: send_signal_eq)

lemma same_ids_monitor: "same_ids st (monitor_step st j p)"
  by (auto simp add: monitor_step_def Let_def same_ids_def frames idents_def
      split: option.splits poll_result.splits)

lemma same_ids_cleanup_job: "same_ids st (cleanup_job os j st)"
  by (auto simp add: cleanup_job_def Let_def same_ids_def frames idents_def
      split: option.splits prod.splits bool.splits dest!: send_signal_eq)

lemma same_ids_fold_cleanup: "same_ids st (fold (cleanup_job os) js st)"
proof (induction js arbitrary: st)
  case Nil
  show ?case by (simp add: same_ids_refl)
next
  case (Cons j js)
  show ?case
    using same_ids_trans [OF same_ids_cleanup_job Cons.IH] by simp
qed

lemma same_ids_cleanup_all: "same_ids st (cleanup_all_jobs os st)"
  by (simp add: cleanup_all_jobs_def same_ids_refl same_ids_fold_cleanup)

lemma same_ids_job_control: "same_ids st (snd (handle_job_control_command os st c))"
  by (auto simp add: handle_job_control_command_def Let_def same_ids_basic same_ids_bring
      same_ids_resume split: list.splits option.splits)

lemma update_fresh: "k \<notin> fst ` set xs \<Longrightarrow> AList.update k v xs = xs @ [(k, v)]"
  by (induction xs) auto

lemma idents_keys: "map fst (idents st) = map fst (jobs st)"
  by (simp add: idents_def case_prod_unfold)

lemma ids_inv_fresh: "ids_inv st \<Longrightarrow> next_job_id st \<notin> fst ` set (jobs st)"
proof
  assume inv: "ids_inv st" and mem: "next_job_id st \<in> fst ` set (jobs st)"
  from mem have "next_job_id st \<in> set (map fst (idents st))"
    by (simp add: idents_keys)
  then obtain i where "(next_job_id st, i) \<in> set (idents st)" by auto
  with inv show False
    by (auto simp add: ids_inv_def list_all_iff)
qed

lemma launch_cases:
  assumes "ids_inv st"
  shows "same_ids st (execute_background_command os st c)
     \<or> (idents (execute_background_command os st c) = idents st
         \<and> task_queue (execute_background_command os st c) = task_queue st
         \<and> next_job_id (execute_background_command os st c) = next_job_id st + 1)
     \<or> (idents (execute_background_command os st c) = idents st @ [(next_job_id st, next_job_id st)]
         \<and> task_queue (execute_background_command os st c) = next_job_id st # task_queue st
         \<and> next_job_id (execute_background_command os st c) = next_job_id st + 1)"
  using ids_inv_fresh [OF assms]
  by (auto simp add: execute_background_command_def Let_def same_ids_def frames idents_def
      handle_passthrough_interactive_command_def update_fresh
      display_error_def add_shell_context_def dispatched_def
      split: sum.splits)

lemma step_same_or_launch:
  assumes "ids_inv st"
  shows "same_ids st (step e st)
     \<or> (idents (step e st) = idents st
         \<and> task_queue (step e st) = task_queue st
         \<and> next_job_id (step e st) = next_job_id st + 1)
     \<or> (idents (step e st) = idents st @ [(next_job_id st, next_job_id st)]
         \<and> task_queue (step e st) = next_job_id st # task_queue st
         \<and> next_job_id (step e st) = next_job_id st + 1)"
proof (cases e)
  case (Pair os ev)
  show ?thesis
  proof (cases ev)
    case (ExecBackground c)
    with Pair launch_cases [OF assms, of os c] show ?thesis by simp
  qed (simp_all add: Pair same_ids_job_control same_ids_bring same_ids_resume same_ids_suspend
         same_ids_interrupt same_ids_monitor same_ids_cleanup_all)
qed

lemma filter_old_keys: "filter (\<lambda>j. j \<notin> set xs) xs = []"
  by (induction xs) (auto simp add: filter_empty_conv)

lemma step_effect:
  assumes inv: "ids_inv st"
  shows "idents (step e st) = idents st @ map (\<lambda>j. (j, j)) (step_new e st)
     \<and> task_queue (step e st) = rev (step_new e st) @ task_queue st
     \<and> (step_new e st = [] \<or> step_new e st = [next_job_id st])
     \<and> next_job_id st + int (length (step_new e st)) \<le> next_job_id (step e st)"
proof -
  have fresh: "next_job_id st \<notin> set (map fst (jobs st))"
    using ids_inv_fresh [OF inv] by simp
  have keys: "map fst (jobs (step e st)) = map fst (idents (step e st))"
    by (simp add: idents_keys)
  consider (a) "same_ids st (step e st)"
    | (b) "idents (step e st) = idents st" "task_queue (step e st) = task_queue st"
          "next_job_id (step e st) = next_job_id st + 1"
    | (c) "idents (step e st) = idents st @ [(next_job_id st, next_job_id st)]"
          "task_queue (step e st) = next_job_id st # task_queue st"
          "next_job_id (step e st) = next_job_id st + 1"
    using step_same_or_launch [OF inv, of e] by blast
  then show ?thesis
  proof cases
    case a
    then have "step_new e st = []"
      by (simp add: step_new_def keys same_ids_def idents_keys filter_old_keys)
    with a show ?thesis by (simp add: same_ids_def)
  next
    case b
    then have "step_new e st = []"
      by (simp add: step_new_def keys idents_keys filter_old_keys)
    with b show ?thesis by simp
  next
    case c
    then have "step_new e st = [next_job_id st]"
      using fresh by (simp add: step_new_def keys idents_keys filter_old_keys)
    with c show ?thesis by simp
  qed
qed

lemma step_inv:
  assumes inv: "ids_inv st"
  shows "ids_inv (step e st)"
proof -
  have le: "next_job_id st \<le> next_job_id (step e st)"
    using step_effect [OF inv, of e] by linarith
  have old: "list_all (\<lambda>(k, i). i = k \<and> k < next_job_id (step e st)) (idents st)"
    using inv le by (auto simp add: ids_inv_def list_all_iff)
  show ?thesis
    using step_effect [OF inv, of e] old
    by (auto simp add: ids_inv_def)
qed

lemma launched_ids_new: "ids_inv st \<Longrightarrow> launched_ids e st = step_new e st"
  using step_effect [of st e] by (simp add: launched_ids_def)

lemma assigned_ids_Cons:
  "ids_inv st \<Longrightarrow> assigned_ids (e # evs) st = step_new e st @ assigned_ids evs (step e st)"
  by (simp add: launched_ids_new)

lemma run_Cons: "run (e # evs) st = run evs (step e st)"
  by (simp add: run_def)

lemma run_ids:
  "ids_inv st \<Longrightarrow>
     idents (run evs st) = idents st @ map (\<lambda>j. (j, j)) (assigned_ids evs st)
     \<and> task_queue (run evs st) = rev (assigned_ids evs st) @ task_queue st
     \<and> sorted_wrt (<) (assigned_ids evs st)
     \<and> list_all (\<lambda>j. next_job_id st \<le> j) (assigned_ids evs st)
     \<and> ids_inv (run evs st)"
proof (induction evs arbitrary: st)
  case Nil
  then show ?case by (simp add: run_def)
next
  case (Cons e evs)
  note eff = step_effect [OF Cons.prems, of e]
  note ih = Cons.IH [OF step_inv [OF Cons.prems, of e]]
  have le: "next_job_id st + int (length (step_new e st)) \<le> next_job_id (step e st)"
    using eff by simp
  have later: "list_all (\<lambda>j. next_job_id (step e st) \<le> j) (assigned_ids evs (step e st))"
    using ih by simp
  have sorted: "sorted_wrt (<) (step_new e st @ assigned_ids evs (step e st))"
  proof (cases "step_new e st = []")
    case True
    with ih show ?thesis by simp
  next
    case False
    with eff have new: "step_new e st = [next_job_id st]" by simp
    with le have "next_job_id st < next_job_id (step e st)" by simp
    with later have "\<forall>j \<in> set (assigned_ids evs (step e st)). next_job_id st < j"
      by (auto simp add: list_all_iff)
    with ih new show ?thesis by simp
  qed
  have lower: "list_all (\<lambda>j. next_job_id st \<le> j) (step_new e st @ assigned_ids evs (step e st))"
    using eff later le by (auto simp add: list_all_iff)
  show ?case
    unfolding assigned_ids_Cons [OF Cons.prems] run_Cons
    using eff ih sorted lower by simp
qed

lemma new_executor_inv: "ids_inv (new_executor d a f e)"
  by (simp add: ids_inv_def idents_def new_executor_def)

lemma demo_launch_any:
  "execute_background_command demo_os st ''sleep 100 &'' =
     st\<lparr>next_job_id := next_job_id st + 1,
        jobs := AList.update (next_job_id st)
                  \<lparr>job_id = next_job_id st, job_pid = 4242, job_pgid = Some 4242,
                   job_process = True, job_command = ''sleep 100'', job_status = Running,
                   job_exit_code = None\<rparr> (jobs st),
        task_queue := next_job_id st # task_queue st,
        ui := ui st @ [ShellContext ''sleep 100 &''
                         (''Background job ['' @ str_int (next_job_id st)
                            @ ''] started with PID 4242'')],
        monitors := monitors st @ [next_job_id st]\<rparr>"
  by (simp add: execute_background_command_def demo_os_def
      py_rstrip_def py_isspace_simps Let_def add_shell_context_def str_int_simps)

lemma map_of_idents: "map_of (idents s) k = map_option job_id (map_of (jobs s) k)"
  by (simp add: idents_def map_of_map)

lemma demo_events_queue: "task_queue (run demo_events demo_start) = [2, 1]"
proof -
  have a: "step (demo_os, ExecBackground ''sleep 100 &'') demo_start
      = demo_start
       \<lparr>jobs := [(1, \<lparr>job_id = 1, job_pid = 4242, job_pgid = Some 4242, job_process = True,
                      job_command = ''sleep 100'', job_status = Running,
                      job_exit_code = None\<rparr>)],
        task_queue := [1], next_job_id := 2, monitors := [1],
        ui := [ShellContext ''sleep 100 &'' ''Background job [1] started with PID 4242'']\<rparr>"
    (is "_ = ?s1")
    by (simp add: demo_launch)
  have "?s1 = (demo_start\<lparr>task_queue := [1], next_job_id := 2, monitors := [1],
        ui := [ShellContext ''sleep 100 &'' ''Background job [1] started with PID 4242'']\<rparr>)
       \<lparr>jobs := [(1, \<lparr>job_id = 1, job_pid = 4242, job_pgid = Some 4242, job_process = True,
                      job_command = ''sleep 100'', job_status = Running,
                      job_exit_code = None\<rparr>)]\<rparr>"
    by simp
  then have b: "step (demo_os, CleanupAll) ?s1
      = (demo_start\<lparr>task_queue := [1], next_job_id := 2, monitors := [1],
        ui := [ShellContext ''sleep 100 &'' ''Background job [1] started with PID 4242'']\<rparr>)
       \<lparr>jobs := [(1, \<lparr>job_id = 1, job_pid = 4242, job_pgid = Some 4242, job_process = True,
                      job_command = ''sleep 100'', job_status = Done,
                      job_exit_code = Some (- 1)\<rparr>)],
        os_log := [Killpg 4242 SIGTERM, Killpg 4242 SIGKILL]\<rparr>"
    (is "_ = ?s2")
    by (simp add: cleanup_all_jobs_def cleanup_job_def send_signal_to_job_def set_job_def
        demo_os_def demo_start_def new_executor_def)
  have c: "task_queue (step (demo_os, ExecBackground ''sleep 100 &'') ?s2) = [2, 1]"
    by (simp add: demo_launch_any)
  have "run demo_events demo_start
      = step (demo_os, ExecBackground ''sleep 100 &'')
          (step (demo_os, CleanupAll) (step (demo_os, ExecBackground ''sleep 100 &'') demo_start))"
    by (simp add: run_def demo_events_def)
  then show ?thesis
    unfolding a b by (simp only: c)
qed

lemma demo_events_ids: "assigned_ids demo_events demo_start = [1, 2]"
proof -
  have inv: "ids_inv demo_start"
    by (simp add: demo_start_def new_executor_inv)
  have "task_queue (run demo_events demo_start)
      = rev (assigned_ids demo_events demo_start) @ task_queue demo_start"
    using run_ids [OF inv, of demo_events] by simp
  moreover have "task_queue demo_start = []"
    by (simp add: demo_start_def new_executor_def)
  ultimately have "rev (assigned_ids demo_events demo_start) = [2, 1]"
    by (simp only: demo_events_queue append_Nil2)
  then have "rev (rev (assigned_ids demo_events demo_start)) = rev [2, 1]"
    by (simp only:)
  then show ?thesis by simp
qed

lemma launch_gives_next:
  assumes "ids_inv st"
  shows "launched_ids (os, ExecBackground c) st = []
     \<or> (launched_ids (os, ExecBackground c) st = [next_job_id st]
         \<and> map_of (jobs st) (next_job_id st) = None
         \<and> map_option job_id (map_of (jobs (execute_background_command os st c)) (next_job_id st))
             = Some (next_job_id st)
         \<and> task_queue (execute_background_command os st c) = next_job_id st # task_queue st
         \<and> next_job_id (execute_background_command os st c) = next_job_id st + 1)"
proof -
  note eff = step_effect [OF assms, of "(os, ExecBackground c)"]
  show ?thesis
  proof (cases "step_new (os, ExecBackground c) st = []")
    case True
    then show ?thesis
      by (simp add: launched_ids_new [OF assms])
  next
    case False
    with eff have new: "step_new (os, ExecBackground c) st = [next_job_id st]"
      by simp
    have fresh: "map_of (jobs st) (next_job_id st) = None"
      using ids_inv_fresh [OF assms] by (simp add: map_of_eq_None_iff)
    from launch_cases [OF assms, of os c] new eff
    have c3: "idents (execute_background_command os st c)
                = idents st @ [(next_job_id st, next_job_id st)]"
      "task_queue (execute_background_command os st c) = next_job_id st # task_queue st"
      "next_job_id (execute_background_command os st c) = next_job_id st + 1"
      by (auto simp add: same_ids_def)
    have "map_of (idents st) (next_job_id st) = None"
      using fresh by (simp add: map_of_idents)
    then have "map_of (idents (execute_background_command os st c)) (next_job_id st)
            = Some (next_job_id st)"
      unfolding c3(1) by (simp add: map_add_def)
    then have "map_option job_id
        (map_of (jobs (execute_background_command os st c)) (next_job_id st))
          = Some (next_job_id st)"
      by (simp only: map_of_idents)
    with new fresh c3 show ?thesis
      by (simp add: launched_ids_new [OF assms])
  qed
qed

lemma other_events_give_none:
  assumes "ids_inv st" "\<forall>c. ev \<noteq> ExecBackground c"
  shows "launched_ids (os, ev) st = []"
proof -
  have "same_ids st (step (os, ev) st)"
    using assms(2)
    by (cases ev)
      (simp_all add: same_ids_job_control same_ids_bring same_ids_resume same_ids_suspend
        same_ids_interrupt same_ids_monitor same_ids_cleanup_all)
  then show ?thesis
    by (simp add: launched_ids_def same_ids_def)
qed

text \<open>
  C3.  The ids that a session gives out are those that its events put at the front of the
  selection sequence.  From a fresh executor and for every sequence of events (launches,
  job-control commands, foreground and background resumption, suspension, interruption,
  monitor updates, shutdown cleanup): these ids are strictly increasing in launch order,
  start at 1 and lie below the counter; the keys of the job table, and the ids recorded
  in its entries, are exactly these ids in that order, so no entry is removed or
  overwritten and no id is given twice; later events only append to the keys.  In every
  state of a session a launch gives out nothing, or the value of the counter, which is
  not a key of the table, is recorded as the id of the new entry, is put at the front of
  the selection sequence, and is followed by a counter one higher; an event that is not a
  launch gives out no id.
\<close>

theorem job_ids_increasing:
  "sorted_wrt (<) (assigned_ids evs (new_executor d a f e))
   \<and> list_all (\<lambda>j. 1 \<le> j \<and> j < next_job_id (run evs (new_executor d a f e)))
         (assigned_ids evs (new_executor d a f e))
   \<and> map fst (jobs (run evs (new_executor d a f e))) = assigned_ids evs (new_executor d a f e)
   \<and> map (job_id \<circ> snd) (jobs (run evs (new_executor d a f e)))
       = assigned_ids evs (new_executor d a f e)
   \<and> map fst (jobs (run (evs @ evs') (new_executor d a f e)))
       = map fst (jobs (run evs (new_executor d a f e)))
         @ assigned_ids evs' (run evs (new_executor d a f e))
   \<and> (launched_ids (os, ExecBackground c) (run evs (new_executor d a f e)) = []
        \<or> (launched_ids (os, ExecBackground c) (run evs (new_executor d a f e))
              = [next_job_id (run evs (new_executor d a f e))]
            \<and> map_of (jobs (run evs (new_executor d a f e)))
                  (next_job_id (run evs (new_executor d a f e))) = None
            \<and> map_option job_id
                  (map_of (jobs (execute_background_command os (run evs (new_executor d a f e)) c))
                     (next_job_id (run evs (new_executor d a f e))))
                = Some (next_job_id (run evs (new_executor d a f e)))
            \<and> task_queue (execute_background_command os (run evs (new_executor d a f e)) c)
                = next_job_id (run evs (new_executor d a f e))
                  # task_queue (run evs (new_executor d a f e))
            \<and> next_job_id (execute_background_command os (run evs (new_executor d a f e)) c)
                = next_job_id (run evs (new_executor d a f e)) + 1))
   \<and> ((\<forall>line. ev \<noteq> ExecBackground line) \<longrightarrow>
        launched_ids (os, ev) (run evs (new_executor d a f e)) = [])"
proof -
  let ?s = "new_executor d a f e"
  note r = run_ids [OF new_executor_inv, of evs d a f e]
  have empty: "idents ?s = []"
    by (simp add: idents_def new_executor_def)
  from r empty have id: "idents (run evs ?s) = map (\<lambda>j. (j, j)) (assigned_ids evs ?s)"
    by simp
  have k: "map fst (jobs (run evs ?s)) = assigned_ids evs ?s"
    using arg_cong [OF id, of "map fst"] by (simp add: idents_keys comp_def)
  have i: "map (job_id \<circ> snd) (jobs (run evs ?s)) = assigned_ids evs ?s"
    using arg_cong [OF id, of "map snd"] by (simp add: idents_def comp_def case_prod_unfold)
  have inv: "ids_inv (run evs ?s)" using r by simp
  have low: "list_all (\<lambda>j. 1 \<le> j) (assigned_ids evs ?s)"
    using r by (simp add: new_executor_def)
  have "list_all (\<lambda>(k, i). k < next_job_id (run evs ?s)) (idents (run evs ?s))"
    using inv by (auto simp add: ids_inv_def list_all_iff)
  then have high: "list_all (\<lambda>j. j < next_job_id (run evs ?s)) (assigned_ids evs ?s)"
    unfolding id by (simp add: list_all_iff)
  from low high
  have bounds: "list_all (\<lambda>j. 1 \<le> j \<and> j < next_job_id (run evs ?s)) (assigned_ids evs ?s)"
    by (simp add: list_all_iff)
  have split: "run (evs @ evs') ?s = run evs' (run evs ?s)"
    by (simp add: run_def)
  have "idents (run evs' (run evs ?s))
      = idents (run evs ?s) @ map (\<lambda>j. (j, j)) (assigned_ids evs' (run evs ?s))"
    using run_ids [OF inv, of evs'] by simp
  from arg_cong [OF this, of "map fst"]
  have ext: "map fst (jobs (run (evs @ evs') ?s))
      = map fst (jobs (run evs ?s)) @ assigned_ids evs' (run evs ?s)"
    by (simp add: split idents_keys comp_def)
  note launch = launch_gives_next [OF inv, of os c]
  have others: "(\<forall>line. ev \<noteq> ExecBackground line) \<longrightarrow>
        launched_ids (os, ev) (run evs ?s) = []"
    using other_events_give_none [OF inv, of ev os] by blast
  from r have sorted: "sorted_wrt (<) (assigned_ids evs ?s)" by simp
  from sorted bounds k i ext launch others show ?thesis
    by (intro conjI)
qed

theorem job_ids_increasing_witness:
  "sorted_wrt (<) (assigned_ids demo_events demo_start)
   \<and> assigned_ids demo_events demo_start = [1, 2]
   \<and> map fst (jobs (run demo_events demo_start)) = [1, 2]
   \<and> (\<forall>line. CleanupAll \<noteq> ExecBackground line)
   \<and> launched_ids (demo_os, CleanupAll) (run demo_events demo_start) = []"
  using job_ids_increasing [of demo_events "''/home/user''" "[]" None "[]" "[]" demo_os "[]"
      CleanupAll, folded demo_start_def]
  by (simp add: demo_events_ids)

section \<open>Job-spec resolution\<close>


























section \<open>Finished jobs\<close>

text \<open>
  C2 at the input where the code departs from it.  A running job is launched and the
  shutdown cleanup marks it done with exit code \<open>-1\<close>; its monitor thread is still in its
  loop, and when its next poll sees the process gone with code \<open>-15\<close> it records that
  code: the exit code of a job that was already done has changed.
\<close>

theorem monitor_overwrites_cleanup:
  "jobs (cleanup_all_jobs demo_os demo_launched) = [(1, demo_job Done (Some (- 1)))]
   \<and> 1 \<in> set (monitors (cleanup_all_jobs demo_os demo_launched))
   \<and> jobs (monitor_step (cleanup_all_jobs demo_os demo_launched) 1 (PollExit (- 15)))
       = [(1, demo_job Done (Some (- 15)))]"
  unfolding demo_cleanup_eq
  by (simp add: monitor_step_def set_job_def demo_launched_eq demo_job_def
      demo_start_def new_executor_def)

lemma map_of_update_alist:
  "map_of (AList.update k v xs) k' = (if k' = k then Some v else map_of xs k')"
  by (simp add: update_conv')

lemma ids_inv_key_below:
  assumes "ids_inv st" "map_of (jobs st) jid = Some j"
  shows "jid < next_job_id st"
proof -
  from assms(2) have "(jid, j) \<in> set (jobs st)" by (rule map_of_SomeD)
  then have "(jid, job_id j) \<in> set (idents st)"
    by (force simp add: idents_def)
  with assms(1) show ?thesis
    by (auto simp add: ids_inv_def list_all_iff)
qed

lemma finished_launch:
  assumes "ids_inv st" "map_of (jobs st) jid = Some j"
  shows "map_of (jobs (execute_background_command os st c)) jid = Some j"
  using ids_inv_key_below [OF assms] assms(2)
  by (auto simp add: execute_background_command_def Let_def map_of_update_alist
      handle_passthrough_interactive_command_def display_error_def add_shell_context_def
      dispatched_def split: sum.splits)

lemma finished_suspend:
  assumes "map_of (jobs st) jid = Some j" "job_status j = Done \<or> job_status j = Failed"
  shows "map_of (jobs (snd (suspend_foreground_job os st))) jid = Some j"
  using assms
  by (auto simp add: suspend_foreground_job_def Let_def frames set_job_def map_of_map_entry
      split: option.splits prod.splits bool.splits dest!: send_signal_eq)

lemma finished_interrupt:
  assumes "map_of (jobs st) jid = Some j"
  shows "map_of (jobs (snd (interrupt_foreground_job os st))) jid = Some j"
  using assms
  by (auto simp add: interrupt_foreground_job_def Let_def frames
      split: option.splits prod.splits bool.splits dest!: send_signal_eq)

lemma finished_resume:
  assumes "map_of (jobs st) jid = Some j" "job_status j = Done \<or> job_status j = Failed"
  shows "map_of (jobs (resume_background_job os st k)) jid = Some j"
  using assms
  by (auto simp add: resume_background_job_def Let_def frames set_job_def map_of_map_entry
      display_error_def
      split: option.splits prod.splits bool.splits dest!: send_signal_eq)

lemma finished_fg_begin:
  assumes "map_of (jobs st) jid = Some j" "job_status j = Done \<or> job_status j = Failed"
  shows "case fg_begin os st k of
           FgReturned s \<Rightarrow> map_of (jobs s) jid = Some j
         | FgWaiting s \<Rightarrow> map_of (jobs s) jid = Some j \<and> k \<noteq> jid"
  using assms
  by (auto simp add: fg_begin_def Let_def frames set_job_def map_of_map_entry display_error_def
      split: option.splits prod.splits bool.splits dest!: send_signal_eq)

lemma finished_fg_end:
  assumes "map_of (jobs st) jid = Some j" "k \<noteq> jid"
  shows "map_of (jobs (snd (fg_end os st k u w))) jid = Some j"
  using assms
  by (auto simp add: fg_end_def Let_def frames set_job_def map_of_map_entry display_error_def
      split: wait_result.splits)

lemma finished_bring:
  assumes "map_of (jobs st) jid = Some j" "job_status j = Done \<or> job_status j = Failed"
  shows "map_of (jobs (snd (bring_job_to_foreground os st k))) jid = Some j"
  using finished_fg_begin [OF assms, where os = os and k = k]
  by (auto simp add: bring_job_to_foreground_def finished_fg_end
      split: fg_stage.splits option.splits)

lemma finished_cleanup_job:
  assumes "map_of (jobs st) jid = Some j" "job_status j = Done \<or> job_status j = Failed"
  shows "map_of (jobs (cleanup_job os k st)) jid = Some j"
  using assms
  by (auto simp add: cleanup_job_def Let_def frames set_job_def map_of_map_entry
      split: option.splits prod.splits bool.splits dest!: send_signal_eq)

lemma finished_cleanup_all:
  assumes "map_of (jobs st) jid = Some j" "job_status j = Done \<or> job_status j = Failed"
  shows "map_of (jobs (cleanup_all_jobs os st)) jid = Some j"
proof -
  have "map_of (jobs s) jid = Some j \<Longrightarrow> map_of (jobs (fold (cleanup_job os) ks s)) jid = Some j"
    for ks s
    by (induction ks arbitrary: s) (simp_all add: finished_cleanup_job assms(2))
  with assms(1) show ?thesis by (cases "jobs st = []") (simp_all add: cleanup_all_jobs_def)
qed

lemma finished_job_control:
  assumes "map_of (jobs st) jid = Some j" "job_status j = Done \<or> job_status j = Failed"
  shows "map_of (jobs (snd (handle_job_control_command os st c))) jid = Some j"
  using assms
  by (auto simp add: handle_job_control_command_def Let_def finished_bring finished_resume
      display_error_def dispatched_def split: list.splits option.splits)

text \<open>
  What does hold of C2: in a state whose job ids are in order, no event other than an
  iteration of a monitor thread changes the entry of a job that is done or failed;
  launch, job-control commands, bring-to-foreground, resume-background, suspend,
  interrupt and shutdown cleanup leave its status and its exit code as they are.
\<close>

theorem finished_job_immutable:
  assumes "ids_inv st" "map_of (jobs st) jid = Some j"
    "job_status j = Done \<or> job_status j = Failed" "\<not> monitor_event ev"
  shows "map_of (jobs (step (os, ev) st)) jid = Some j"
  using assms
  by (cases ev)
    (simp_all add: monitor_event_def finished_launch finished_job_control finished_bring
      finished_resume finished_suspend finished_interrupt finished_cleanup_all)

theorem finished_job_immutable_witness:
  "map_of (jobs (step (demo_os, BringToForeground 1) (cleanup_all_jobs demo_os demo_launched))) 1
     = Some (demo_job Done (Some (- 1)))"
proof -
  have i: "ids_inv (cleanup_all_jobs demo_os demo_launched)"
    unfolding demo_cleanup_eq
    by (simp add: ids_inv_def idents_def demo_launched_eq demo_job_def)
  have m: "map_of (jobs (cleanup_all_jobs demo_os demo_launched)) 1
      = Some (demo_job Done (Some (- 1)))"
    unfolding demo_cleanup_eq by simp
  have s: "job_status (demo_job Done (Some (- 1))) = Done
      \<or> job_status (demo_job Done (Some (- 1))) = Failed"
    by (simp add: demo_job_def)
  have e: "\<not> monitor_event (BringToForeground 1)"
    by (simp add: monitor_event_def)
  from finished_job_immutable [OF i m s e, of demo_os] show ?thesis .
qed

section \<open>The foreground-job reference\<close>

lemma fg_begin_sets:
  assumes "map_of (jobs st) jid = Some j" "job_status j \<noteq> Done" "job_status j \<noteq> Failed"
    "job_process j"
  shows "case fg_begin os st jid of
           FgWaiting s \<Rightarrow> foreground_job s = Some jid
         | FgReturned s \<Rightarrow> False"
  using assms
  by (auto simp add: fg_begin_def Let_def frames split: prod.splits bool.splits
      dest!: send_signal_eq)

lemma map_of_map_entry:
  "map_of (AList.map_entry k f xs) k' =
     (if k' = k then map_option f (map_of xs k') else map_of xs k')"
  by (induction xs) auto

















section \<open>Directory changes\<close>

lemma strip_nonexistent: "py_strip ''/nonexistent'' = ''/nonexistent''"
  by (simp add: py_strip_def py_lstrip_def py_rstrip_def py_isspace_def)

lemma demo_cd_target: "cd_target demo_os demo_start ''cd /nonexistent'' = ''/nonexistent''"
  by (simp add: cd_target_def strip_nonexistent expanduser_def startswith_def)

lemma bare_strip:
  "py_strip ''.'' = ''.''" "py_strip ''..'' = ''..''" "py_strip ''-'' = ''-''"
  by (simp_all add: py_strip_def py_lstrip_def py_rstrip_def py_isspace_def)

lemma bare_targets:
  "cd_target os st ''cd .'' = ''.''"
  "cd_target os st ''cd ..'' = ''..''"
  "cd_target os st ''cd -'' =
     (if previous_directory st \<noteq> [] then previous_directory st else expanduser os ''~'')"
  by (simp_all add: cd_target_def bare_strip expanduser_def startswith_def)

lemma cd_success:
  assumes "os_getcwd os (cwd st) = Inr old_dir"
    and "os_chdir os (cwd st) (cd_target os st command) = Inr entered"
    and "os_getcwd os entered = Inr new_dir"
  shows "cwd (snd (handle_cd_command cfg os st command)) = entered
     \<and> previous_directory (snd (handle_cd_command cfg os st command)) = old_dir
     \<and> fst (handle_cd_command cfg os st command) = None"
  using assms
  by (simp add: handle_cd_command_def Let_def add_shell_context_def)

text \<open>
  C7.  When the system refuses to enter the target of a \<^verbatim>\<open>cd\<close> command with an
  \<^verbatim>\<open>OSError\<close>, the handler returns without an exception, the working directory and
  the tracked previous directory are unchanged (nothing but the UI log changes), and the
  error shown and logged is \<open>cd: \<close> followed by the text of the system's error.
\<close>

theorem cd_failure_leaves_state:
  assumes "os_getcwd os (cwd st) = Inr old_dir"
    and "os_chdir os (cwd st) (cd_target os st command) = Inl (OSError msg)"
  shows "handle_cd_command cfg os st command =
           (None, st\<lparr>ui := ui st @ [DisplayError command (''cd: '' @ msg),
                                      ShellContext command (''cd: '' @ msg)]\<rparr>)"
  using assms
  by (simp add: handle_cd_command_def cd_failed_def display_error_def add_shell_context_def)

theorem cd_failure_leaves_state_witness:
  "handle_cd_command default_config demo_os demo_start ''cd /nonexistent'' =
     (None, demo_start
        \<lparr>ui := [DisplayError ''cd /nonexistent''
                   ''cd: [Errno 2] No such file or directory: /nonexistent'',
                 ShellContext ''cd /nonexistent''
                   ''cd: [Errno 2] No such file or directory: /nonexistent'']\<rparr>)"
proof -
  have g: "os_getcwd demo_os (cwd demo_start) = Inr ''/home/user''"
    by (simp add: demo_os_def demo_start_def new_executor_def)
  have c: "os_chdir demo_os (cwd demo_start) (cd_target demo_os demo_start ''cd /nonexistent'')
      = Inl (OSError ''[Errno 2] No such file or directory: /nonexistent'')"
    unfolding demo_cd_target by (simp add: demo_os_def)
  from cd_failure_leaves_state [OF g c, of default_config] show ?thesis
    by (simp add: demo_start_def new_executor_def)
qed

text \<open>
  C10.  For the bare tokens \<open>.\<close>, \<open>..\<close> and \<open>-\<close> the auto-cd step answers that it handled
  the line and does exactly what the \<^verbatim>\<open>cd\<close> handler does on \<open>cd .\<close>, \<open>cd ..\<close> and \<open>cd -\<close>,
  whatever the alias table, the search path and the file system say (the known-command
  and directory checks are not consulted).  The directory asked of the system is \<open>.\<close>,
  \<open>..\<close> and the tracked previous directory (the home directory if none is tracked); when
  the system enters it, the working directory is the one entered and the previous
  directory is the one left.
\<close>

theorem auto_cd_bare_tokens:
  assumes "token = ''.'' \<or> token = ''..'' \<or> token = ''-''"
  shows "handle_auto_cd cfg os st token = (True, handle_cd_command cfg os st (''cd '' @ token))
     \<and> cd_target os st (''cd '' @ token) =
         (if token = ''-''
          then (if previous_directory st \<noteq> [] then previous_directory st else expanduser os ''~'')
          else token)
     \<and> (os_getcwd os (cwd st) = Inr old_dir
          \<and> os_chdir os (cwd st) (cd_target os st (''cd '' @ token)) = Inr entered
          \<and> os_getcwd os entered = Inr new_dir \<longrightarrow>
          cwd (snd (snd (handle_auto_cd cfg os st token))) = entered
          \<and> previous_directory (snd (snd (handle_auto_cd cfg os st token))) = old_dir
          \<and> fst (snd (handle_auto_cd cfg os st token)) = None)"
proof -
  from assms have a: "handle_auto_cd cfg os st token
      = (True, handle_cd_command cfg os st (''cd '' @ token))"
    by (auto simp add: handle_auto_cd_def bare_strip)
  from assms have t: "cd_target os st (''cd '' @ token) =
         (if token = ''-''
          then (if previous_directory st \<noteq> [] then previous_directory st else expanduser os ''~'')
          else token)"
    using bare_targets [of os st] by auto
  show ?thesis
    unfolding a using t cd_success [of os st old_dir "''cd '' @ token" entered new_dir cfg]
    by simp
qed

theorem auto_cd_bare_tokens_witness:
  "handle_auto_cd default_config demo_os (demo_start\<lparr>previous_directory := ''/tmp''\<rparr>) ''-''
     = (True, handle_cd_command default_config demo_os
                (demo_start\<lparr>previous_directory := ''/tmp''\<rparr>) ''cd -'')
   \<and> cwd (snd (snd (handle_auto_cd default_config demo_os
        (demo_start\<lparr>previous_directory := ''/tmp''\<rparr>) ''-''))) = ''/tmp''
   \<and> previous_directory (snd (snd (handle_auto_cd default_config demo_os
        (demo_start\<lparr>previous_directory := ''/tmp''\<rparr>) ''-''))) = ''/home/user''
   \<and> is_known_command demo_os (demo_start\<lparr>previous_directory := ''/tmp''\<rparr>) ''.''"
proof -
  let ?st = "demo_start\<lparr>previous_directory := ''/tmp''\<rparr>"
  have g: "os_getcwd demo_os (cwd ?st) = Inr ''/home/user''"
    by (simp add: demo_os_def demo_start_def new_executor_def)
  have t: "cd_target demo_os ?st (''cd '' @ ''-'') = ''/tmp''"
    using bare_targets(3) [of demo_os ?st] by simp
  have c: "os_chdir demo_os (cwd ?st) (cd_target demo_os ?st (''cd '' @ ''-'')) = Inr ''/tmp''"
    unfolding t by (simp add: demo_os_def)
  have g2: "os_getcwd demo_os ''/tmp'' = Inr ''/tmp''"
    by (simp add: demo_os_def)
  have k: "is_known_command demo_os ?st ''.''"
    by (simp add: is_known_command_def shell_builtin_names_def)
  from auto_cd_bare_tokens [of "''-''" default_config demo_os ?st "''/home/user''" "''/tmp''" "''/tmp''"]
    g c g2 k
  show ?thesis by (auto simp add: bare_targets)
qed

section \<open>Syntax errors of alias, export and unset\<close>













section \<open>Alias expansion in the dispatcher\<close>










subsection \<open>Sample lines\<close>


lemmas head_eval =
  handle_environment_commands_def handle_script_commands_def startswith_def
  handle_alias_management_def handle_export_command_def handle_unset_command_def


































section \<open>Persistence of the alias table\<close>



































end
